theory Spec2Isabelle
  imports Main
begin

section \<open>Python values and exceptions\<close>

text \<open>
  The exceptions the modelled code can raise. \<open>ValueError\<close> is what the code raises
  where the specification speaks of a validation error. \<open>JSONDecodeError\<close> and
  \<open>RequestException\<close> come from the \<open>json\<close> and \<open>requests\<close> libraries.
\<close>

datatype error =
    ValueError string
  | KeyError string
  | IndexError
  | TypeError
  | AttributeError
  | Exception string
  | JSONDecodeError
  | RequestException

text \<open>
  What \<open>json.loads\<close> returns. \<open>JNull\<close> is Python's \<open>None\<close>, an object is an
  association list in insertion order, each key once. Numbers are integers: the code
  only tests a number for truth and compares it with strings, where a fraction behaves
  as an integer of the same truth value does.
\<close>

datatype json =
    JNull
  | JBool bool
  | JNum int
  | JStr string
  | JArr "json list"
  | JObj "(string \<times> json) list"

text \<open>\<open>x[k]\<close> for a string key \<open>k\<close>.\<close>

fun getitem :: "json \<Rightarrow> string \<Rightarrow> error + json" where
  "getitem (JObj kvs) k = (case map_of kvs k of None \<Rightarrow> Inl (KeyError k) | Some v \<Rightarrow> Inr v)"
| "getitem _ k = Inl TypeError"

text \<open>\<open>x[0]\<close>. The keys of a decoded object are strings, so \<open>0\<close> is never one of them.\<close>

fun getitem0 :: "json \<Rightarrow> error + json" where
  "getitem0 (JArr []) = Inl IndexError"
| "getitem0 (JArr (x # xs)) = Inr x"
| "getitem0 (JStr []) = Inl IndexError"
| "getitem0 (JStr (c # cs)) = Inr (JStr [c])"
| "getitem0 (JObj kvs) = Inl (KeyError ''0'')"
| "getitem0 _ = Inl TypeError"

text \<open>\<open>x.get(k)\<close>: only a dict has the method.\<close>

fun get :: "json \<Rightarrow> string \<Rightarrow> error + json" where
  "get (JObj kvs) k = (case map_of kvs k of None \<Rightarrow> Inr JNull | Some v \<Rightarrow> Inr v)"
| "get _ k = Inl AttributeError"

text \<open>Truth value of an object in a condition.\<close>

fun truthy :: "json \<Rightarrow> bool" where
  "truthy JNull = False"
| "truthy (JBool b) = b"
| "truthy (JNum n) = (n \<noteq> 0)"
| "truthy (JStr s) = (s \<noteq> [])"
| "truthy (JArr xs) = (xs \<noteq> [])"
| "truthy (JObj kvs) = (kvs \<noteq> [])"

text \<open>\<open>x == s\<close> for a Python string \<open>s\<close>.\<close>

fun eq_str :: "json \<Rightarrow> string \<Rightarrow> bool" where
  "eq_str (JStr t) s = (t = s)"
| "eq_str _ s = False"

text \<open>\<open>len(x)\<close>.\<close>

fun len :: "json \<Rightarrow> error + nat" where
  "len (JArr xs) = Inr (length xs)"
| "len (JObj kvs) = Inr (length kvs)"
| "len (JStr s) = Inr (length s)"
| "len _ = Inl TypeError"

text \<open>The elements \<open>for d in x\<close> runs through: of a dict its keys, of a string its characters.\<close>

fun iter :: "json \<Rightarrow> error + json list" where
  "iter (JArr xs) = Inr xs"
| "iter (JObj kvs) = Inr (map (\<lambda>kv. JStr (fst kv)) kvs)"
| "iter (JStr s) = Inr (map (\<lambda>c. JStr [c]) s)"
| "iter _ = Inl TypeError"

text \<open>A truthy optional string: neither \<open>None\<close> nor empty.\<close>

fun truthy_str :: "string option \<Rightarrow> bool" where
  "truthy_str None = False"
| "truthy_str (Some s) = (s \<noteq> [])"

text \<open>\<open>x if x else None\<close> as the key \<open>x\<close> is written or omitted.\<close>

definition present :: "string option \<Rightarrow> string option" where
  "present x = (if truthy_str x then x else None)"

section \<open>elements.py\<close>

definition VALUE_OFFSET :: int where
  "VALUE_OFFSET = 100"

record Header =
  header_type :: string
  header_text :: "string option"
  header_image_link :: "string option"

text \<open>
  An \<open>Amount\<close> object: its two attributes. They are plain attributes, so a record
  holds any pair of integers; \<open>Amount_init\<close> is the constructor with its checks.
\<close>

record Amount =
  val :: int
  offset :: int

definition Amount_init :: "int \<Rightarrow> int \<Rightarrow> error + Amount" where
  "Amount_init v off =
     (if off \<noteq> VALUE_OFFSET then Inl (ValueError ''Offset must be 100'')
      else if v mod VALUE_OFFSET \<noteq> 0 then Inl (ValueError ''Value must be a multiple of 100'')
      else Inr \<lparr>val = v, offset = off\<rparr>)"

record Address =
  address_line1 :: string
  city :: string
  zone_code :: string
  postal_code :: string
  country_code :: string
  address_line2 :: "string option"

record Item =
  name :: string
  amount :: Amount
  quantity :: int
  sale_amount :: "Amount option"
  retailer_id :: "string option"
  image_link :: "string option"
  country_of_origin :: "string option"
  importer_name :: "string option"
  importer_address :: "Address option"

section \<open>checkout_base.py: the order details message\<close>

text \<open>
  The dicts the builder fills, one record per dict, a key that is only written under a
  condition as an option. A dict with a single key is the field of the enclosing
  record: \<open>body\<close> is \<open>{"text": ...}\<close>, \<open>item_image\<close> is \<open>{"link": ...}\<close>. A
  field of type \<open>Amount\<close> is the dict (or the \<open>toJSON\<close> string) with the keys
  \<open>value\<close> and \<open>offset\<close>.
\<close>

datatype header_dict =
    TextHeader string
  | ImageHeader string

record expiration_dict =
  expiration_timestamp :: string
  expiration_description :: "string option"

record item_dict =
  item_name :: string
  item_amount :: Amount
  item_quantity :: int
  item_retailer_id :: "string option"
  item_image :: "string option"
  item_sale_amount :: "Amount option"
  item_country_of_origin :: "string option"
  item_importer_name :: "string option"
  item_importer_address :: "Address option"

record charge_dict =
  charge_value :: int
  charge_offset :: int
  charge_description :: "string option"

record discount_dict = charge_dict +
  charge_discount_program_name :: "string option"

record order_dict =
  order_status :: string
  order_catalog_id :: "string option"
  order_expiration :: "expiration_dict option"
  order_items :: "item_dict list"
  order_subtotal :: Amount
  order_tax :: "charge_dict option"
  order_shipping :: "charge_dict option"
  order_discount :: "discount_dict option"

record parameters_dict =
  parameters_reference_id :: string
  parameters_type :: string
  parameters_payment_type :: string
  parameters_payment_configuration :: string
  parameters_currency :: string
  parameters_order :: order_dict
  parameters_total_amount :: Amount

record interactive_dict =
  interactive_type :: string
  interactive_header :: "header_dict option"
  interactive_body :: string
  interactive_footer :: "string option"
  action_name :: string
  action_parameters :: parameters_dict

record request_dict =
  messaging_product :: string
  recipient_type :: string
  request_to :: string
  request_type :: string
  request_interactive :: interactive_dict

text \<open>The arguments of \<open>send_order_details_msg\<close>, by their names.\<close>

record order_details_args =
  goods_type :: string
  sender_phone_number :: string
  recipient_phone_number :: string
  reference_id :: string
  msg_body :: string
  items :: "Item list"
  tax_amount :: "Amount option"
  tax_desc :: "string option"
  shipping_amount :: "Amount option"
  shipping_desc :: "string option"
  discount_amount :: "Amount option"
  discount_desc :: "string option"
  discount_program_name :: "string option"
  catalog_id :: "string option"
  msg_header :: "Header option"
  msg_footer :: "string option"
  expiration_in_sec :: "string option"
  expiration_desc :: "string option"

section \<open>checkout_base.py: the process and its surroundings\<close>

text \<open>
  The addresses the code requests, by the values it puts into the URL:
  \<open>{URL}/{waba}/phone_numbers\<close>, \<open>{URL}/{phone_number_id}/messages\<close> and
  \<open>{URL}/{phone_number_id}/payments/{payment_configuration}/{reference_id}\<close>.
\<close>

datatype url =
    PhoneNumbersUrl string
  | MessagesUrl json
  | PaymentsUrl json string json

datatype request =
    Get url "(string \<times> string) list"
  | Post url request_dict "(string \<times> string) list"

text \<open>
  A response of \<open>requests\<close> by what the code reads from it: \<open>r.status_code\<close>,
  \<open>r.text\<close>, and \<open>r.content\<close> as an f-string formats it (the text \<open>b'...'\<close>
  of the bytes).
\<close>

record response =
  status_code :: int
  response_text :: string
  response_content :: string

text \<open>What the code prints, one constructor per \<open>print\<close> with the values it formats.\<close>

datatype printed =
    OrderDetailsRequest request_dict
  | OrderDetailsResponse json
  | PaymentStatusResponse json
  | CannotBeVerified
  | NotWhatsappBusinessAccount json
  | NotThisWaba string json
  | NotMessages json
  | PaymentConfirmation json json json json
  | PaymentStatusUpdate json json json json
  | NotRecognized string

text \<open>
  What the code takes from outside: the four abstract methods of \<open>CheckoutBase\<close> by
  the strings they return, and the library calls. \<open>hexdigest env key msg\<close> is
  \<open>hmac.new(key.encode("utf-8"), msg.encode("utf-8"), hashlib.sha256).hexdigest()\<close>,
  \<open>transport env sent r\<close> is the answer of \<open>requests\<close> to the request \<open>r\<close> after the
  requests \<open>sent\<close>.
\<close>

record env =
  get_access_token :: string
  get_app_secret :: string
  get_waba :: string
  get_payment_configuration :: string
  hexdigest :: "string \<Rightarrow> string \<Rightarrow> string"
  json_loads :: "string \<Rightarrow> error + json"
  transport :: "request list \<Rightarrow> request \<Rightarrow> error + response"

text \<open>
  The state of the process: the class attribute \<open>_phone_number_to_id_map\<close> (a dict, in
  insertion order), the requests made so far and the lines printed so far.
\<close>

record state =
  phone_number_to_id_map :: "(string \<times> json) list"
  requests :: "request list"
  stdout :: "printed list"

text \<open>Sequencing: an exception ends the computation.\<close>

fun and_then :: "error + 'a \<Rightarrow> ('a \<Rightarrow> error + 'b) \<Rightarrow> error + 'b" where
  "and_then (Inl e) k = Inl e"
| "and_then (Inr x) k = k x"

fun attempt :: "error + 'a \<Rightarrow> state \<Rightarrow> ('a \<Rightarrow> (error + 'b) \<times> state) \<Rightarrow> (error + 'b) \<times> state" where
  "attempt (Inl e) st k = (Inl e, st)"
| "attempt (Inr x) st k = k x"

definition print :: "printed \<Rightarrow> state \<Rightarrow> state" where
  "print x st = st\<lparr>stdout := stdout st @ [x]\<rparr>"

text \<open>\<open>m[k] = v\<close> on a dict: a key that is there keeps its place.\<close>

fun dict_set :: "string \<Rightarrow> json \<Rightarrow> (string \<times> json) list \<Rightarrow> (string \<times> json) list" where
  "dict_set k v [] = [(k, v)]"
| "dict_set k v (kv # m) = (if fst kv = k then (k, v) # m else kv # dict_set k v m)"

text \<open>\<open>t in s\<close> for two strings.\<close>

fun is_substring :: "string \<Rightarrow> string \<Rightarrow> bool" where
  "is_substring t [] = (t = [])"
| "is_substring t (c # s) = (take (length t) (c # s) = t \<or> is_substring t s)"

fun in_str :: "json \<Rightarrow> string \<Rightarrow> error + bool" where
  "in_str (JStr t) s = Inr (is_substring t s)"
| "in_str _ s = Inl TypeError"

text \<open>\<open>"".join(c for c in cs if c in "0123456789")\<close>.\<close>

fun join_digits :: "json list \<Rightarrow> error + string" where
  "join_digits [] = Inr []"
| "join_digits (c # cs) =
     and_then (in_str c ''0123456789'') (\<lambda>b.
     and_then (join_digits cs) (\<lambda>s.
       Inr ((case c of JStr t \<Rightarrow> if b then t else [] | _ \<Rightarrow> []) @ s)))"

definition get_headers :: "env \<Rightarrow> (string \<times> string) list" where
  "get_headers env =
     [(''Authorization'', ''Bearer '' @ get_access_token env),
      (''Content-Type'', ''application/json'')]"

text \<open>A call of \<open>requests.get\<close> or \<open>requests.post\<close>.\<close>

definition http :: "env \<Rightarrow> request \<Rightarrow> state \<Rightarrow> (error + response) \<times> state" where
  "http env r st = (transport env (requests st) r, st\<lparr>requests := requests st @ [r]\<rparr>)"

text \<open>The loop of \<open>_load_phone_numbers\<close>; the entries stored before an exception stay.\<close>

fun store_phone_numbers :: "json list \<Rightarrow> state \<Rightarrow> (error + unit) \<times> state" where
  "store_phone_numbers [] st = (Inr (), st)"
| "store_phone_numbers (d # ds) st =
     attempt (and_then (getitem d ''display_phone_number'') (\<lambda>x.
              and_then (iter x) join_digits)) st (\<lambda>phone_number.
     attempt (getitem d ''id'') st (\<lambda>i.
       store_phone_numbers ds
         (st\<lparr>phone_number_to_id_map := dict_set phone_number i (phone_number_to_id_map st)\<rparr>)))"

definition load_phone_numbers :: "env \<Rightarrow> state \<Rightarrow> (error + unit) \<times> state" where
  "load_phone_numbers env st =
     (case http env (Get (PhoneNumbersUrl (get_waba env)) (get_headers env)) st of (r, st1) \<Rightarrow>
      attempt r st1 (\<lambda>r.
        if status_code r \<noteq> 200
        then (Inl (Exception (''Error on getting phone number id map '' @ response_content r)), st1)
        else
          attempt (and_then (json_loads env (response_text r)) (\<lambda>j. getitem j ''data'')) st1 (\<lambda>data.
          attempt (len data) st1 (\<lambda>n.
            if n = 0 then (Inl (Exception ''There are no phone numbers in the WABA''), st1)
            else attempt (iter data) st1 (\<lambda>ds. store_phone_numbers ds st1)))))"

definition get_sender_phone_number_id :: "env \<Rightarrow> string \<Rightarrow> state \<Rightarrow> (error + json) \<times> state" where
  "get_sender_phone_number_id env phone_number st =
     (case (if phone_number_to_id_map st = [] then load_phone_numbers env st else (Inr (), st))
      of (r, st1) \<Rightarrow>
        attempt r st1 (\<lambda>_.
          case map_of (phone_number_to_id_map st1) phone_number of
            None \<Rightarrow> (Inl (KeyError phone_number), st1)
          | Some i \<Rightarrow> (Inr i, st1)))"

section \<open>checkout_base.py: send_order_details_msg\<close>

text \<open>The header dict of lines 129 to 139.\<close>

definition header_dict_of :: "Header \<Rightarrow> error + header_dict" where
  "header_dict_of h =
     (if header_type h = ''text'' \<and> truthy_str (header_text h)
      then (case header_text h of Some t \<Rightarrow> Inr (TextHeader t)
            | None \<Rightarrow> Inl (ValueError (''Invalid header type '' @ header_type h)))
      else if header_type h = ''image'' \<and> truthy_str (header_image_link h)
      then (case header_image_link h of Some l \<Rightarrow> Inr (ImageHeader l)
            | None \<Rightarrow> Inl (ValueError (''Invalid header type '' @ header_type h)))
      else Inl (ValueError (''Invalid header type '' @ header_type h)))"

text \<open>Lines 129 to 139 for a header that may be absent.\<close>

definition interactive_header_of :: "Header option \<Rightarrow> error + header_dict option" where
  "interactive_header_of h =
     (case h of None \<Rightarrow> Inr None
      | Some h \<Rightarrow> and_then (header_dict_of h) (\<lambda>d. Inr (Some d)))"

text \<open>The variable \<open>am\<close> of the loop: the sale amount when the item has one.\<close>

definition effective_amount :: "Item \<Rightarrow> Amount" where
  "effective_amount item = (case sale_amount item of Some s \<Rightarrow> s | None \<Rightarrow> amount item)"

text \<open>The dict \<open>it\<close> of the loop.\<close>

definition item_dict_of :: "Item \<Rightarrow> item_dict" where
  "item_dict_of item =
     \<lparr>item_name = name item,
      item_amount = amount item,
      item_quantity = quantity item,
      item_retailer_id = present (retailer_id item),
      item_image = present (image_link item),
      item_sale_amount = sale_amount item,
      item_country_of_origin = present (country_of_origin item),
      item_importer_name = present (importer_name item),
      item_importer_address = importer_address item\<rparr>"

text \<open>
  The loop over the items (lines 155 to 181), from the running \<open>total\<close> (here \<open>tot\<close>) and
  \<open>item_list\<close>: the offset of \<open>am\<close> is compared before the item is counted.
\<close>

fun items_loop :: "int \<Rightarrow> Item list \<Rightarrow> int \<Rightarrow> item_dict list \<Rightarrow> error + int \<times> item_dict list" where
  "items_loop off [] tot item_list = Inr (tot, item_list)"
| "items_loop off (item # rest) tot item_list =
     (if off \<noteq> offset (effective_amount item)
      then Inl (ValueError ''Item amount must have the same offset as others'')
      else items_loop off rest (tot + val (effective_amount item) * quantity item)
             (item_list @ [item_dict_of item]))"

text \<open>The running total after the tax, shipping and discount blocks (lines 187 to 219).\<close>

definition add_amount :: "int \<Rightarrow> Amount option \<Rightarrow> int" where
  "add_amount tot a = (case a of None \<Rightarrow> tot | Some x \<Rightarrow> tot + val x)"

definition sub_amount :: "int \<Rightarrow> Amount option \<Rightarrow> int" where
  "sub_amount tot a = (case a of None \<Rightarrow> tot | Some x \<Rightarrow> tot - val x)"

definition charge_dict_of :: "int \<Rightarrow> Amount option \<Rightarrow> string option \<Rightarrow> charge_dict option" where
  "charge_dict_of off a desc =
     (case a of None \<Rightarrow> None
      | Some x \<Rightarrow> Some \<lparr>charge_value = val x, charge_offset = off,
                        charge_description = present desc\<rparr>)"

definition discount_dict_of ::
  "int \<Rightarrow> Amount option \<Rightarrow> string option \<Rightarrow> string option \<Rightarrow> discount_dict option" where
  "discount_dict_of off a desc program =
     (case a of None \<Rightarrow> None
      | Some x \<Rightarrow> Some \<lparr>charge_value = val x, charge_offset = off,
                        charge_description = present desc,
                        charge_discount_program_name = present program\<rparr>)"

definition expiration_dict_of :: "string option \<Rightarrow> string option \<Rightarrow> expiration_dict option" where
  "expiration_dict_of secs desc =
     (case present secs of None \<Rightarrow> None
      | Some t \<Rightarrow> Some \<lparr>expiration_timestamp = t, expiration_description = present desc\<rparr>)"

text \<open>
  Lines 110 to 222: the dict \<open>interactive\<close>, or the exception raised on the way, in
  the order of the source: the header, \<open>items[0]\<close>, the loop, \<open>Amount(total, offset)\<close>.
\<close>

definition build_interactive :: "env \<Rightarrow> order_details_args \<Rightarrow> error + interactive_dict" where
  "build_interactive env a =
     and_then (interactive_header_of (msg_header a)) (\<lambda>hd.
     case items a of
       [] \<Rightarrow> Inl IndexError
     | first # _ \<Rightarrow>
         (let off = offset (amount first) in
          and_then (items_loop off (items a) 0 []) (\<lambda>(subtotal, item_list).
            (let tot = sub_amount (add_amount (add_amount subtotal (tax_amount a))
                                       (shipping_amount a)) (discount_amount a)
             in and_then (Amount_init tot off) (\<lambda>total_amount.
                  Inr \<lparr>interactive_type = ''order_details'',
                       interactive_header = hd,
                       interactive_body = msg_body a,
                       interactive_footer = present (msg_footer a),
                       action_name = ''review_and_pay'',
                       action_parameters =
                         \<lparr>parameters_reference_id = reference_id a,
                          parameters_type = goods_type a,
                          parameters_payment_type = ''upi'',
                          parameters_payment_configuration = get_payment_configuration env,
                          parameters_currency = ''INR'',
                          parameters_order =
                            \<lparr>order_status = ''pending'',
                             order_catalog_id = present (catalog_id a),
                             order_expiration =
                               expiration_dict_of (expiration_in_sec a) (expiration_desc a),
                             order_items = item_list,
                             order_subtotal = \<lparr>val = subtotal, offset = off\<rparr>,
                             order_tax = charge_dict_of off (tax_amount a) (tax_desc a),
                             order_shipping =
                               charge_dict_of off (shipping_amount a) (shipping_desc a),
                             order_discount =
                               discount_dict_of off (discount_amount a) (discount_desc a)
                                 (discount_program_name a)\<rparr>,
                          parameters_total_amount = total_amount\<rparr>\<rparr>)))))"

definition send_order_details_msg :: "env \<Rightarrow> order_details_args \<Rightarrow> state \<Rightarrow> (error + unit) \<times> state" where
  "send_order_details_msg env a st =
     (let http_headers = get_headers env in
      case get_sender_phone_number_id env (sender_phone_number a) st of (r, st1) \<Rightarrow>
      attempt r st1 (\<lambda>phone_number_id.
      attempt (build_interactive env a) st1 (\<lambda>interactive.
        (let request = \<lparr>messaging_product = ''whatsapp'',
                        recipient_type = ''individual'',
                        request_to = recipient_phone_number a,
                        request_type = ''interactive'',
                        request_interactive = interactive\<rparr>;
             st2 = print (OrderDetailsRequest request) st1
         in case http env (Post (MessagesUrl phone_number_id) request http_headers) st2
            of (r, st3) \<Rightarrow>
              attempt (and_then r (\<lambda>r. json_loads env (response_text r))) st3 (\<lambda>j.
                (Inr (), print (OrderDetailsResponse j) st3))))))"

section \<open>checkout_base.py: get_payment_status\<close>

definition get_payment_status :: "env \<Rightarrow> string \<Rightarrow> json \<Rightarrow> state \<Rightarrow> (error + unit) \<times> state" where
  "get_payment_status env business_phone_number ref st =
     (let http_headers = get_headers env;
          payment_configuration = get_payment_configuration env in
      case get_sender_phone_number_id env business_phone_number st of (r, st1) \<Rightarrow>
      attempt r st1 (\<lambda>phone_number_id.
        case http env (Get (PaymentsUrl phone_number_id payment_configuration ref) http_headers) st1
        of (r, st2) \<Rightarrow>
          attempt (and_then r (\<lambda>r. json_loads env (response_text r))) st2 (\<lambda>j.
            (Inr (), print (PaymentStatusResponse j) st2))))"

section \<open>checkout_base.py: verify_webhook\<close>

text \<open>\<open>s.removeprefix(p)\<close>.\<close>

definition removeprefix :: "string \<Rightarrow> string \<Rightarrow> string" where
  "removeprefix p s = (if take (length p) s = p then drop (length p) s else s)"

text \<open>
  \<open>hmac.compare_digest\<close> on two strings: it raises \<open>TypeError\<close> unless both are
  ASCII. A string is a list of 8-bit characters here, a character is ASCII when its
  highest bit is not set, and a code point beyond ASCII is one or several characters
  that are not.
\<close>

definition isascii :: "string \<Rightarrow> bool" where
  "isascii s = list_all (\<lambda>c. \<not> digit7 c) s"

definition compare_digest :: "string \<Rightarrow> string \<Rightarrow> error + bool" where
  "compare_digest a b = (if isascii a \<and> isascii b then Inr (a = b) else Inl TypeError)"

definition verify_webhook :: "env \<Rightarrow> (string \<rightharpoonup> string) \<Rightarrow> string \<Rightarrow> error + bool" where
  "verify_webhook env headers payload =
     (case headers ''X-Hub-Signature-256'' of
        None \<Rightarrow> Inl (KeyError ''X-Hub-Signature-256'')
      | Some h \<Rightarrow>
          (let hmac_in_header = removeprefix ''sha256='' h;
               hmac_calculated = hexdigest env (get_app_secret env) payload
           in compare_digest hmac_in_header hmac_calculated))"

section \<open>checkout_base.py: handle_webhook_call\<close>

text \<open>\<open>x in ["pending", "failed", "success", "canceled"]\<close>.\<close>

definition in_statuses :: "json \<Rightarrow> bool" where
  "in_statuses x =
     (eq_str x ''pending'' \<or> eq_str x ''failed'' \<or> eq_str x ''success'' \<or> eq_str x ''canceled'')"

text \<open>\<open>list(m.keys())[0]\<close>.\<close>

fun first_key :: "(string \<times> json) list \<Rightarrow> error + string" where
  "first_key [] = Inl IndexError"
| "first_key (kv # m) = Inr (fst kv)"

text \<open>
  Lines 331 to 364, from the first entry of \<open>statuses\<close>. As in the source, the name
  \<open>status\<close> is bound again by \<open>status = status.get("status")\<close>, and the two calls
  of \<open>get\<close> after it are made on the new value.
\<close>

definition handle_status :: "env \<Rightarrow> string \<Rightarrow> json \<Rightarrow> json \<Rightarrow> state \<Rightarrow> (error + unit) \<times> state" where
  "handle_status env payload change_value status st =
     attempt (get status ''id'') st (\<lambda>sid.
     attempt (get status ''recipient_id'') st (\<lambda>recipient_id.
     attempt (get status ''type'') st (\<lambda>status_type.
     attempt (get status ''status'') st (\<lambda>status.
     attempt (get status ''payment'') st (\<lambda>payment.
     attempt (get status ''timestamp'') st (\<lambda>timestamp.
     attempt (if truthy recipient_id \<and> eq_str status_type ''payment'' \<and> in_statuses status
                 \<and> truthy timestamp \<and> truthy payment
              then and_then (getitem payment ''reference_id'') (\<lambda>r. Inr (truthy r))
              else Inr False) st (\<lambda>is_update.
       if is_update then
         attempt (getitem payment ''reference_id'') st (\<lambda>ref.
         attempt (and_then (getitem change_value ''metadata'') (\<lambda>m.
                    getitem m ''display_phone_number'')) st (\<lambda>user.
           (let st1 = print (PaymentStatusUpdate sid ref status user) st in
            attempt (first_key (phone_number_to_id_map st1)) st1 (\<lambda>business_phone_number.
            attempt (getitem payment ''reference_id'') st1 (\<lambda>ref.
              get_payment_status env business_phone_number ref st1)))))
       else (Inr (), print (NotRecognized payload) st))))))))"

definition handle_webhook_call :: "env \<Rightarrow> (string \<rightharpoonup> string) \<Rightarrow> string \<Rightarrow> state \<Rightarrow> (error + unit) \<times> state" where
  "handle_webhook_call env headers payload st =
     attempt (verify_webhook env headers payload) st (\<lambda>verified.
       if \<not> verified then (Inr (), print CannotBeVerified st)
       else
         attempt (json_loads env payload) st (\<lambda>data.
         attempt (getitem data ''object'') st (\<lambda>object.
           if \<not> eq_str object ''whatsapp_business_account''
           then (Inr (), print (NotWhatsappBusinessAccount object) st)
           else
             attempt (and_then (getitem data ''entry'') getitem0) st (\<lambda>entry.
             attempt (getitem entry ''id'') st (\<lambda>entry_id.
               if \<not> eq_str entry_id (get_waba env)
               then (Inr (), print (NotThisWaba (get_waba env) entry_id) st)
               else
                 attempt (and_then (getitem entry ''changes'') getitem0) st (\<lambda>change.
                 attempt (getitem change ''field'') st (\<lambda>field.
                   if \<not> eq_str field ''messages''
                   then (Inr (), print (NotMessages field) st)
                   else
                     attempt (getitem change ''value'') st (\<lambda>change_value.
                     attempt (and_then (getitem change_value ''messages'') (\<lambda>ms.
                              and_then (getitem0 ms) (\<lambda>m. get m ''interactive''))) st (\<lambda>interactive.
                     attempt (if truthy interactive
                              then and_then (getitem interactive ''type'') (\<lambda>t.
                                     Inr (eq_str t ''payment''))
                              else Inr False) st (\<lambda>is_payment.
                       if is_payment then
                         attempt (getitem interactive ''payment'') st (\<lambda>payment.
                         attempt (getitem payment ''transaction_id'') st (\<lambda>transaction_id.
                         attempt (getitem payment ''reference_id'') st (\<lambda>ref.
                         attempt (getitem payment ''status'') st (\<lambda>status.
                         attempt (and_then (getitem change_value ''metadata'') (\<lambda>m.
                                    getitem m ''display_phone_number'')) st (\<lambda>user.
                           (Inr (), print (PaymentConfirmation transaction_id ref status user) st))))))
                       else
                         attempt (and_then (getitem change_value ''statuses'') getitem0) st (\<lambda>status.
                           handle_status env payload change_value status st)))))))))))"

section \<open>What the properties below speak of\<close>

text \<open>The requests made from the state \<open>st\<close> to the later state \<open>st'\<close>.\<close>

definition new_requests :: "state \<Rightarrow> state \<Rightarrow> request list" where
  "new_requests st st' = drop (length (requests st)) (requests st')"

text \<open>The messages posted among them.\<close>

fun posted_of :: "request \<Rightarrow> request_dict list" where
  "posted_of (Post u d h) = [d]"
| "posted_of (Get u h) = []"

definition posted :: "state \<Rightarrow> state \<Rightarrow> request_dict list" where
  "posted st st' = concat (map posted_of (new_requests st st'))"

text \<open>The printed lines that report a payment status update.\<close>

fun is_status_update :: "printed \<Rightarrow> bool" where
  "is_status_update (PaymentStatusUpdate i r s u) = True"
| "is_status_update _ = False"

text \<open>The dict \<open>request\<close> around an \<open>interactive\<close> dict.\<close>

definition request_of :: "order_details_args \<Rightarrow> interactive_dict \<Rightarrow> request_dict" where
  "request_of a i =
     \<lparr>messaging_product = ''whatsapp'', recipient_type = ''individual'',
      request_to = recipient_phone_number a, request_type = ''interactive'',
      request_interactive = i\<rparr>"

text \<open>
  In a posted message, \<open>interactive["action"]["parameters"]["total_amount"]\<close> and
  \<open>interactive["action"]["parameters"]["order"]\<close>.
\<close>

definition total_amount_of :: "request_dict \<Rightarrow> Amount" where
  "total_amount_of d = parameters_total_amount (action_parameters (request_interactive d))"

definition order_of :: "request_dict \<Rightarrow> order_dict" where
  "order_of d = parameters_order (action_parameters (request_interactive d))"

text \<open>An Amount as the constructor makes it, and arguments whose amounts are all such.\<close>

definition valid_amount :: "Amount \<Rightarrow> bool" where
  "valid_amount a = (Amount_init (val a) (offset a) = Inr a)"

fun valid_amount_opt :: "Amount option \<Rightarrow> bool" where
  "valid_amount_opt None = True"
| "valid_amount_opt (Some a) = valid_amount a"

definition valid_item :: "Item \<Rightarrow> bool" where
  "valid_item item = (valid_amount (amount item) \<and> valid_amount_opt (sale_amount item))"

definition valid_args :: "order_details_args \<Rightarrow> bool" where
  "valid_args a =
     (list_all valid_item (items a) \<and> valid_amount_opt (tax_amount a)
      \<and> valid_amount_opt (shipping_amount a) \<and> valid_amount_opt (discount_amount a))"

text \<open>The value of an amount that may be absent, as it enters the total.\<close>

fun val_opt :: "Amount option \<Rightarrow> int" where
  "val_opt None = 0"
| "val_opt (Some a) = val a"

text \<open>The sum the loop accumulates.\<close>

definition items_sum :: "Item list \<Rightarrow> int" where
  "items_sum its = sum_list (map (\<lambda>item. val (effective_amount item) * quantity item) its)"

text \<open>A hex digest as \<open>hexdigest()\<close> returns it for SHA-256: 64 lower-case hex digits.\<close>

definition is_hexdigest :: "string \<Rightarrow> bool" where
  "is_hexdigest s = (length s = 64 \<and> list_all (\<lambda>c. c \<in> set ''0123456789abcdef'') s)"

section \<open>An example process\<close>

text \<open>
  Callback bodies, each with the value \<open>json.loads\<close> gives for it. The second has
  no \<open>messages\<close> entry, the last an \<open>interactive\<close> object without \<open>payment\<close>.
\<close>

definition status_callback :: string where
  \<open>status_callback = ''{"object":"whatsapp_business_account","entry":[{"id":"waba1","changes":[{"field":"messages","value":{"metadata":{"display_phone_number":"16315555555"},"messages":[{}],"statuses":[{"id":"wamid1","recipient_id":"919999999999","type":"payment","status":"success","timestamp":"1700000000","payment":{"reference_id":"ref1"}}]}}]}]}''\<close>

definition status_only_callback :: string where
  \<open>status_only_callback = ''{"object":"whatsapp_business_account","entry":[{"id":"waba1","changes":[{"field":"messages","value":{"metadata":{"display_phone_number":"16315555555"},"statuses":[{"id":"wamid1","recipient_id":"919999999999","type":"payment","status":"success","timestamp":"1700000000","payment":{"reference_id":"ref1"}}]}}]}]}''\<close>

definition confirmation_callback :: string where
  \<open>confirmation_callback = ''{"object":"whatsapp_business_account","entry":[{"id":"waba1","changes":[{"field":"messages","value":{"metadata":{"display_phone_number":"16315555555"},"messages":[{"interactive":{"type":"payment","payment":{"transaction_id":"txn1","reference_id":"ref1","status":"success"}}}],"statuses":[{"id":"wamid1","recipient_id":"919999999999","type":"payment","status":"success","timestamp":"1700000000","payment":{"reference_id":"ref1"}}]}}]}]}''\<close>

definition bare_interactive_callback :: string where
  \<open>bare_interactive_callback = ''{"object":"whatsapp_business_account","entry":[{"id":"waba1","changes":[{"field":"messages","value":{"metadata":{"display_phone_number":"16315555555"},"messages":[{"interactive":{"type":"payment"}}]}}]}]}''\<close>

definition example_metadata :: json where
  "example_metadata = JObj [(''display_phone_number'', JStr ''16315555555'')]"

definition example_status :: json where
  "example_status =
     JObj [(''id'', JStr ''wamid1''), (''recipient_id'', JStr ''919999999999''),
           (''type'', JStr ''payment''), (''status'', JStr ''success''),
           (''timestamp'', JStr ''1700000000''),
           (''payment'', JObj [(''reference_id'', JStr ''ref1'')])]"

definition example_payment :: json where
  "example_payment =
     JObj [(''transaction_id'', JStr ''txn1''), (''reference_id'', JStr ''ref1''),
           (''status'', JStr ''success'')]"

definition callback_with :: "json \<Rightarrow> json" where
  "callback_with v =
     JObj [(''object'', JStr ''whatsapp_business_account''),
           (''entry'', JArr [JObj [(''id'', JStr ''waba1''),
              (''changes'', JArr [JObj [(''field'', JStr ''messages''), (''value'', v)]])]])]"

definition status_callback_json :: json where
  "status_callback_json =
     callback_with (JObj [(''metadata'', example_metadata), (''messages'', JArr [JObj []]),
                          (''statuses'', JArr [example_status])])"

definition status_only_callback_json :: json where
  "status_only_callback_json =
     callback_with (JObj [(''metadata'', example_metadata), (''statuses'', JArr [example_status])])"

definition confirmation_callback_json :: json where
  "confirmation_callback_json =
     callback_with (JObj [(''metadata'', example_metadata),
        (''messages'', JArr [JObj [(''interactive'',
            JObj [(''type'', JStr ''payment''), (''payment'', example_payment)])]]),
        (''statuses'', JArr [example_status])])"

definition bare_interactive_callback_json :: json where
  "bare_interactive_callback_json =
     callback_with (JObj [(''metadata'', example_metadata),
        (''messages'', JArr [JObj [(''interactive'', JObj [(''type'', JStr ''payment'')])]])])"

definition phone_numbers_body :: string where
  \<open>phone_numbers_body = ''{"data":[{"display_phone_number":"+1 631-555-5555","id":"106540352242922"}]}''\<close>

definition phone_numbers_json :: json where
  "phone_numbers_json =
     JObj [(''data'', JArr [JObj [(''display_phone_number'', JStr ''+1 631-555-5555''),
                                  (''id'', JStr ''106540352242922'')]])]"

text \<open>\<open>json.loads\<close> on these texts.\<close>

definition example_loads :: "string \<Rightarrow> error + json" where
  "example_loads s =
     (if s = phone_numbers_body then Inr phone_numbers_json
      else if s = ''{}'' then Inr (JObj [])
      else if s = status_callback then Inr status_callback_json
      else if s = status_only_callback then Inr status_only_callback_json
      else if s = confirmation_callback then Inr confirmation_callback_json
      else if s = bare_interactive_callback then Inr bare_interactive_callback_json
      else Inl JSONDecodeError)"

text \<open>
  HMAC-SHA256 under the key \<open>key\<close>, in hex, of the callback bodies above and of the
  sentence of the usual test vector; elsewhere this table holds zeros.
\<close>

definition fox :: string where
  "fox = ''The quick brown fox jumps over the lazy dog''"

definition fox_digest :: string where
  "fox_digest = ''f7bc83f430538424b13298e6aa6fb143ef4d59a14946175997479dbc2d1a3cd8''"

definition example_hexdigest :: "string \<Rightarrow> string \<Rightarrow> string" where
  "example_hexdigest k m =
     (if k = ''key'' \<and> m = fox then fox_digest
      else if k = ''key'' \<and> m = status_callback
        then ''18990409685bb22392677138291976add281caf59d8a3cf99bec43a0f5fe75b3''
      else if k = ''key'' \<and> m = status_only_callback
        then ''62a809cbc5577bcd25a6501b882fe486cf08fc0e076d7cb1aebcb864833a3a12''
      else if k = ''key'' \<and> m = confirmation_callback
        then ''79e41f71f76b9f3355d0d159c62da59dde6dec5aeeb4a3b860507b9236536bf0''
      else if k = ''key'' \<and> m = bare_interactive_callback
        then ''8ad0932c25e4368d8b3dc082c05fb6ab61deac74701bc06aee15a5f3b8dee56a''
      else replicate 64 (CHR ''0''))"

text \<open>A server that lists one phone number and answers every other request with \<open>{}\<close>.\<close>

fun example_transport :: "request list \<Rightarrow> request \<Rightarrow> error + response" where
  "example_transport sent (Get (PhoneNumbersUrl w) h) =
     Inr \<lparr>status_code = 200, response_text = phone_numbers_body,
          response_content = ''b'' @ [CHR 0x27] @ phone_numbers_body @ [CHR 0x27]\<rparr>"
| "example_transport sent r =
     Inr \<lparr>status_code = 200, response_text = ''{}'',
          response_content = ''b'' @ [CHR 0x27] @ ''{}'' @ [CHR 0x27]\<rparr>"

definition example_env :: env where
  "example_env =
     \<lparr>get_access_token = ''token'',
      get_app_secret = ''key'',
      get_waba = ''waba1'',
      get_payment_configuration = ''upi-config'',
      hexdigest = example_hexdigest,
      json_loads = example_loads,
      transport = example_transport\<rparr>"

text \<open>The process before any call, and after the phone numbers were loaded.\<close>

definition initial_state :: state where
  "initial_state = \<lparr>phone_number_to_id_map = [], requests = [], stdout = []\<rparr>"

definition loaded_state :: state where
  "loaded_state =
     \<lparr>phone_number_to_id_map = [(''16315555555'', JStr ''106540352242922'')],
      requests = [Get (PhoneNumbersUrl ''waba1'') (get_headers example_env)],
      stdout = []\<rparr>"

text \<open>One item of value 1000 at offset 100, twice, with a tax of 100.\<close>

definition example_item :: Item where
  "example_item =
     \<lparr>name = ''A'', amount = \<lparr>val = 1000, offset = 100\<rparr>, quantity = 2,
      sale_amount = None, retailer_id = None, image_link = None,
      country_of_origin = None, importer_name = None, importer_address = None\<rparr>"

definition example_args :: order_details_args where
  "example_args =
     \<lparr>goods_type = ''digital-goods'',
      sender_phone_number = ''16315555555'',
      recipient_phone_number = ''919999999999'',
      reference_id = ''ref1'',
      msg_body = ''Your order'',
      items = [example_item],
      tax_amount = Some \<lparr>val = 100, offset = 100\<rparr>,
      tax_desc = None,
      shipping_amount = None,
      shipping_desc = None,
      discount_amount = None,
      discount_desc = None,
      discount_program_name = None,
      catalog_id = None,
      msg_header = None,
      msg_footer = None,
      expiration_in_sec = None,
      expiration_desc = None\<rparr>"

text \<open>The same order with a shipping amount of 100 and a discount of 200.\<close>

definition full_args :: order_details_args where
  "full_args =
     example_args\<lparr>shipping_amount := Some \<lparr>val = 100, offset = 100\<rparr>,
                  discount_amount := Some \<lparr>val = 200, offset = 100\<rparr>\<rparr>"

text \<open>The same order with a discount of 5000.\<close>

definition discounted_args :: order_details_args where
  "discounted_args = example_args\<lparr>discount_amount := Some \<lparr>val = 5000, offset = 100\<rparr>\<rparr>"

text \<open>
  The same order with a tax, a shipping and a discount amount whose \<open>offset\<close>
  attributes were set to 10, 1000 and 1 after construction.
\<close>

definition mismatched_args :: order_details_args where
  "mismatched_args =
     example_args\<lparr>tax_amount := Some \<lparr>val = 100, offset = 10\<rparr>,
                  shipping_amount := Some \<lparr>val = 200, offset = 1000\<rparr>,
                  discount_amount := Some \<lparr>val = 100, offset = 1\<rparr>\<rparr>"

text \<open>An item of quantity 0 whose amount has offset 10, and the order with it added.\<close>

definition odd_item :: Item where
  "odd_item = example_item\<lparr>name := ''B'', amount := \<lparr>val = 500, offset = 10\<rparr>, quantity := 0\<rparr>"

definition odd_args :: order_details_args where
  "odd_args = example_args\<lparr>items := [example_item, odd_item]\<rparr>"

section \<open>Facts about the model\<close>

subsection \<open>Unfolding\<close>

lemmas example_defs = example_env_def example_loads_def example_hexdigest_def initial_state_def loaded_state_def
  example_item_def example_args_def fox_def fox_digest_def phone_numbers_body_def phone_numbers_json_def
  status_callback_def status_only_callback_def confirmation_callback_def bare_interactive_callback_def
  status_callback_json_def status_only_callback_json_def confirmation_callback_json_def bare_interactive_callback_json_def
  discounted_args_def full_args_def mismatched_args_def odd_item_def odd_args_def
  callback_with_def example_metadata_def example_status_def example_payment_def

lemmas model_defs = send_order_details_msg_def get_sender_phone_number_id_def load_phone_numbers_def http_def
  get_headers_def build_interactive_def Amount_init_def VALUE_OFFSET_def effective_amount_def item_dict_of_def
  add_amount_def sub_amount_def charge_dict_of_def discount_dict_of_def expiration_dict_of_def present_def print_def
  header_dict_of_def interactive_header_of_def get_payment_status_def verify_webhook_def removeprefix_def compare_digest_def isascii_def
  handle_webhook_call_def handle_status_def in_statuses_def

lemma attempt_eq: "attempt r st k = (case r of Inl e \<Rightarrow> (Inl e, st) | Inr x \<Rightarrow> k x)"
  by (cases r) simp_all

lemma and_then_eq: "and_then r k = (case r of Inl e \<Rightarrow> Inl e | Inr x \<Rightarrow> k x)"
  by (cases r) simp_all

subsection \<open>The item loop and the phone directory\<close>

lemma items_loop_eq:
  "items_loop off its tot il =
     (if list_all (\<lambda>item. offset (effective_amount item) = off) its
      then Inr (tot + items_sum its, il @ map item_dict_of its)
      else Inl (ValueError ''Item amount must have the same offset as others''))"
  by (induction its arbitrary: tot il) (auto simp: items_sum_def)

lemma store_phone_numbers_keeps:
  "store_phone_numbers ds st = (r, st') \<Longrightarrow> requests st' = requests st \<and> stdout st' = stdout st"
proof (induction ds arbitrary: st)
  case Nil
  then show ?case by simp
next
  case (Cons d ds)
  show ?case
  proof (cases "and_then (getitem d ''display_phone_number'') (\<lambda>x. and_then (iter x) join_digits)")
    case (Inl e)
    with Cons.prems show ?thesis by simp
  next
    case pn: (Inr phone_number)
    show ?thesis
    proof (cases "getitem d ''id''")
      case (Inl e)
      with pn Cons.prems show ?thesis by simp
    next
      case (Inr i)
      with pn Cons.prems Cons.IH show ?thesis by fastforce
    qed
  qed
qed

lemma load_phone_numbers_requests:
  assumes "load_phone_numbers env st = (r, st')"
  shows "requests st' = requests st @ [Get (PhoneNumbersUrl (get_waba env)) (get_headers env)]
         \<and> stdout st' = stdout st"
  using assms
  by (auto simp: load_phone_numbers_def http_def attempt_eq
           split: sum.splits if_splits prod.splits dest!: store_phone_numbers_keeps)

lemma get_sender_phone_number_id_requests:
  assumes "get_sender_phone_number_id env pn st = (r, st')"
  shows "requests st' = requests st @
           (if phone_number_to_id_map st = []
            then [Get (PhoneNumbersUrl (get_waba env)) (get_headers env)] else [])
         \<and> stdout st' = stdout st"
proof (cases "phone_number_to_id_map st = []")
  case True
  obtain r1 st1 where l: "load_phone_numbers env st = (r1, st1)"
    by (cases "load_phone_numbers env st")
  from load_phone_numbers_requests [OF l] assms l True show ?thesis
    by (auto simp: get_sender_phone_number_id_def attempt_eq
             split: sum.splits option.splits)
next
  case False
  with assms show ?thesis
    by (auto simp: get_sender_phone_number_id_def attempt_eq
             split: sum.splits option.splits)
qed

subsection \<open>What send_order_details_msg posts\<close>

lemma send_order_details_msg_posted:
  assumes "send_order_details_msg env a st = (r, st')"
  shows "posted st st' =
           (case fst (get_sender_phone_number_id env (sender_phone_number a) st) of
              Inl e \<Rightarrow> []
            | Inr pid \<Rightarrow> (case build_interactive env a of Inl e \<Rightarrow> [] | Inr i \<Rightarrow> [request_of a i]))"
proof -
  obtain r1 st1 where g: "get_sender_phone_number_id env (sender_phone_number a) st = (r1, st1)"
    by (cases "get_sender_phone_number_id env (sender_phone_number a) st")
  have req: "requests st1 = requests st @
           (if phone_number_to_id_map st = []
            then [Get (PhoneNumbersUrl (get_waba env)) (get_headers env)] else [])"
    using get_sender_phone_number_id_requests [OF g] by simp
  show ?thesis
    using assms g req
    by (auto simp: send_order_details_msg_def Let_def http_def print_def attempt_eq request_of_def
          posted_def new_requests_def split: sum.splits prod.splits)
qed

lemma build_interactive_eq:
  "build_interactive env a =
     (case interactive_header_of (msg_header a) of
        Inl e \<Rightarrow> Inl e
      | Inr h \<Rightarrow>
         (case items a of
            [] \<Rightarrow> Inl IndexError
          | first # rest \<Rightarrow>
              if \<not> list_all (\<lambda>item. offset (effective_amount item) = offset (amount first)) (items a)
              then Inl (ValueError ''Item amount must have the same offset as others'')
              else
                (case Amount_init (items_sum (items a) + val_opt (tax_amount a)
                                     + val_opt (shipping_amount a) - val_opt (discount_amount a))
                        (offset (amount first)) of
                   Inl e \<Rightarrow> Inl e
                 | Inr t \<Rightarrow>
                     Inr \<lparr>interactive_type = ''order_details'',
                          interactive_header = h,
                          interactive_body = msg_body a,
                          interactive_footer = present (msg_footer a),
                          action_name = ''review_and_pay'',
                          action_parameters =
                            \<lparr>parameters_reference_id = reference_id a,
                             parameters_type = goods_type a,
                             parameters_payment_type = ''upi'',
                             parameters_payment_configuration = get_payment_configuration env,
                             parameters_currency = ''INR'',
                             parameters_order =
                               \<lparr>order_status = ''pending'',
                                order_catalog_id = present (catalog_id a),
                                order_expiration =
                                  expiration_dict_of (expiration_in_sec a) (expiration_desc a),
                                order_items = map item_dict_of (items a),
                                order_subtotal =
                                  \<lparr>val = items_sum (items a), offset = offset (amount first)\<rparr>,
                                order_tax =
                                  charge_dict_of (offset (amount first)) (tax_amount a) (tax_desc a),
                                order_shipping =
                                  charge_dict_of (offset (amount first)) (shipping_amount a)
                                    (shipping_desc a),
                                order_discount =
                                  discount_dict_of (offset (amount first)) (discount_amount a)
                                    (discount_desc a) (discount_program_name a)\<rparr>,
                             parameters_total_amount = t\<rparr>\<rparr>)))"
proof -
  have tot: "sub_amount (add_amount (add_amount s (tax_amount a)) (shipping_amount a)) (discount_amount a)
      = s + val_opt (tax_amount a) + val_opt (shipping_amount a) - val_opt (discount_amount a)" for s
    by (cases "tax_amount a"; cases "shipping_amount a"; cases "discount_amount a")
       (simp_all add: add_amount_def sub_amount_def)
  show ?thesis
    by (simp add: build_interactive_def items_loop_eq tot Let_def and_then_eq
             split: sum.splits list.splits)
qed

lemma posted_cases:
  assumes "d \<in> set (posted st (snd (send_order_details_msg env a st)))"
  shows "\<exists>i. build_interactive env a = Inr i \<and> d = request_of a i"
  using assms
    send_order_details_msg_posted [of env a st "fst (send_order_details_msg env a st)"
      "snd (send_order_details_msg env a st)"]
  by (auto split: sum.splits)

lemma build_interactive_Inr:
  assumes "build_interactive env a = Inr i"
  shows "\<exists>first rest. items a = first # rest
           \<and> list_all (\<lambda>item. offset (effective_amount item) = offset (amount first)) (items a)
           \<and> offset (amount first) = 100
           \<and> order_subtotal (parameters_order (action_parameters i))
               = \<lparr>val = items_sum (items a), offset = 100\<rparr>
           \<and> parameters_total_amount (action_parameters i)
               = \<lparr>val = items_sum (items a) + val_opt (tax_amount a)
                         + val_opt (shipping_amount a) - val_opt (discount_amount a),
                  offset = 100\<rparr>"
  using assms
  by (auto simp: build_interactive_eq Amount_init_def VALUE_OFFSET_def
           split: sum.splits list.splits if_splits)


subsection \<open>Amounts made by the constructor\<close>

lemma valid_amount_iff: "valid_amount x \<longleftrightarrow> offset x = 100 \<and> 100 dvd val x"
  by (auto simp: valid_amount_def Amount_init_def VALUE_OFFSET_def)

lemma valid_item_effective: "valid_item item \<Longrightarrow> valid_amount (effective_amount item)"
  by (cases "sale_amount item") (simp_all add: valid_item_def effective_amount_def)

lemma valid_items_sum:
  "list_all valid_item its \<Longrightarrow>
     100 dvd items_sum its \<and> list_all (\<lambda>item. offset (effective_amount item) = 100) its"
proof (induction its)
  case Nil
  then show ?case by (simp add: items_sum_def)
next
  case (Cons item its)
  then have "valid_amount (effective_amount item)"
    by (simp add: valid_item_effective)
  then have "offset (effective_amount item) = 100" and "100 dvd val (effective_amount item) * quantity item"
    by (simp_all add: valid_amount_iff)
  with Cons show ?case
    by (simp add: items_sum_def)
qed

lemma valid_amount_opt_dvd: "valid_amount_opt x \<Longrightarrow> 100 dvd val_opt x"
  by (cases x) (simp_all add: valid_amount_iff)

lemma valid_args_total:
  assumes "valid_args a" and "items a = first # rest"
  shows "offset (amount first) = 100"
    and "list_all (\<lambda>item. offset (effective_amount item) = 100) (items a)"
    and "100 dvd items_sum (items a) + val_opt (tax_amount a)
                 + val_opt (shipping_amount a) - val_opt (discount_amount a)"
proof -
  from assms have v: "list_all valid_item (items a)"
    and t: "100 dvd val_opt (tax_amount a)"
    and s: "100 dvd val_opt (shipping_amount a)"
    and d: "100 dvd val_opt (discount_amount a)"
    by (simp_all add: valid_args_def valid_amount_opt_dvd)
  from v assms(2) have "valid_amount (amount first)"
    by (simp add: valid_item_def)
  then show "offset (amount first) = 100"
    by (simp add: valid_amount_iff)
  from valid_items_sum [OF v]
  show "list_all (\<lambda>item. offset (effective_amount item) = 100) (items a)"
    and "100 dvd items_sum (items a) + val_opt (tax_amount a)
                 + val_opt (shipping_amount a) - val_opt (discount_amount a)"
    using t s d by (simp_all add: dvd_add dvd_diff)
qed

lemma order_total_eq:
  "sub_amount (add_amount (add_amount s (tax_amount a)) (shipping_amount a)) (discount_amount a)
      = s + val_opt (tax_amount a) + val_opt (shipping_amount a) - val_opt (discount_amount a)"
  by (cases "tax_amount a"; cases "shipping_amount a"; cases "discount_amount a")
     (simp_all add: add_amount_def sub_amount_def)

lemma valid_args_build:
  assumes "valid_args a" and "items a = first # rest" and "interactive_header_of (msg_header a) = Inr h"
  shows "\<exists>i. build_interactive env a = Inr i"
  using valid_args_total [OF assms(1,2)] assms(2,3)
  by (simp add: build_interactive_eq Amount_init_def VALUE_OFFSET_def)

lemma interactive_header_of_error:
  "interactive_header_of h = Inl e \<Longrightarrow> \<exists>m. e = ValueError m"
  by (auto simp: interactive_header_of_def header_dict_of_def and_then_eq
           split: option.splits if_splits sum.splits)

lemma items_sum_quantity_0:
  "quantity item = 0 \<Longrightarrow> items_sum (its @ item # its') = items_sum (its @ its')"
  by (simp add: items_sum_def)

subsection \<open>Offsets of the order-level amounts\<close>




subsection \<open>Digests and prefixes\<close>

lemma hex_digits_isascii: "isascii ''0123456789abcdef''"
  by (simp add: isascii_def)

lemma hex_digit_ascii: "c \<in> set ''0123456789abcdef'' \<Longrightarrow> \<not> digit7 c"
  using hex_digits_isascii unfolding isascii_def list_all_iff by blast

lemma prefix_isascii: "isascii ''sha256=''"
  by (simp add: isascii_def)

lemma is_hexdigest_isascii: "is_hexdigest s \<Longrightarrow> isascii s"
  unfolding is_hexdigest_def isascii_def list_all_iff using hex_digit_ascii by blast

lemma is_hexdigest_no_prefix: "is_hexdigest s \<Longrightarrow> take 7 s \<noteq> ''sha256=''"
proof
  assume h: "is_hexdigest s" and t: "take 7 s = ''sha256=''"
  from t obtain c cs where s: "s = c # cs" and c: "c = CHR ''s''"
    by (cases s) auto
  from h s have "c \<in> set ''0123456789abcdef''"
    unfolding is_hexdigest_def list_all_iff by (simp only: list.set_intros(1) simp_thms)
  with c show False by simp
qed

lemma isascii_append: "isascii (a @ b) \<longleftrightarrow> isascii a \<and> isascii b"
  by (simp add: isascii_def)

lemma removeprefix_sha256:
  "removeprefix ''sha256='' h = (if take 7 h = ''sha256='' then drop 7 h else h)"
  by (simp add: removeprefix_def eval_nat_numeral)

lemma isascii_removeprefix: "isascii (removeprefix ''sha256='' h) \<longleftrightarrow> isascii h"
proof (cases "take 7 h = ''sha256=''")
  case True
  then have "h = ''sha256='' @ drop 7 h"
    by (metis append_take_drop_id)
  then have "isascii h \<longleftrightarrow> isascii (drop 7 h)"
    using prefix_isascii isascii_append by metis
  with True show ?thesis by (simp add: removeprefix_sha256)
next
  case False
  then show ?thesis by (simp add: removeprefix_sha256)
qed

lemma removeprefix_eq_digest:
  assumes "is_hexdigest dg"
  shows "removeprefix ''sha256='' h = dg \<longleftrightarrow> h = ''sha256='' @ dg \<or> h = dg"
proof (cases "take 7 h = ''sha256=''")
  case True
  then have h: "h = ''sha256='' @ drop 7 h"
    by (metis append_take_drop_id)
  from True is_hexdigest_no_prefix [OF assms] have "h \<noteq> dg" by auto
  moreover from True have "removeprefix ''sha256='' h = drop 7 h"
    by (simp add: removeprefix_sha256)
  ultimately show ?thesis using h by (metis same_append_eq)
next
  case False
  then have "h \<noteq> ''sha256='' @ dg" by auto
  with False show ?thesis by (simp add: removeprefix_sha256)
qed

subsection \<open>No items\<close>

lemma send_order_details_msg_empty:
  assumes "items a = []"
  shows "send_order_details_msg env a st =
           (case get_sender_phone_number_id env (sender_phone_number a) st of
              (Inl e, st1) \<Rightarrow> (Inl e, st1)
            | (Inr pid, st1) \<Rightarrow>
                (Inl (case interactive_header_of (msg_header a) of Inl e \<Rightarrow> e | Inr h \<Rightarrow> IndexError),
                 st1))"
  using assms
  by (simp add: send_order_details_msg_def build_interactive_eq attempt_eq
           split: prod.splits sum.splits)

subsection \<open>The handler leaves the requests alone\<close>

lemma get_Inr_not_in_statuses: "get s k = Inr p \<Longrightarrow> \<not> in_statuses s"
  by (cases s) (simp_all add: in_statuses_def)

lemma attempt_fails_or:
  assumes "\<And>x. r = Inr x \<Longrightarrow> (\<exists>e. k x = (Inl e, st)) \<or> k x = res"
  shows "(\<exists>e. attempt r st k = (Inl e, st)) \<or> attempt r st k = res"
  using assms by (cases r) simp_all

lemma handle_status_cases:
  "(\<exists>e. handle_status env payload v status st = (Inl e, st))
   \<or> handle_status env payload v status st = (Inr (), print (NotRecognized payload) st)"
  unfolding handle_status_def
proof (intro attempt_fails_or)
  fix sid recipient_id status_type s payment timestamp is_update
  assume p: "get s ''payment'' = Inr payment"
    and u: "(if truthy recipient_id \<and> eq_str status_type ''payment'' \<and> in_statuses s
                 \<and> truthy timestamp \<and> truthy payment
              then and_then (getitem payment ''reference_id'') (\<lambda>r. Inr (truthy r))
              else Inr False) = Inr is_update"
  from get_Inr_not_in_statuses [OF p] u have "\<not> is_update"
    by auto
  then show "(\<exists>e. (if is_update
          then attempt (getitem payment ''reference_id'') st
                (\<lambda>ref. attempt
                        (and_then (getitem v ''metadata'')
                          (\<lambda>m. getitem m ''display_phone_number''))
                        st
                        (\<lambda>user.
                            let st1 = print (PaymentStatusUpdate sid ref s user) st
                            in attempt (first_key (phone_number_to_id_map st1)) st1
                                (\<lambda>business_phone_number.
                                    attempt (getitem payment ''reference_id'') st1
                                     (\<lambda>ref. get_payment_status env business_phone_number ref st1))))
          else (Inr (), print (NotRecognized payload) st)) = (Inl e, st))
      \<or> (if is_update
          then attempt (getitem payment ''reference_id'') st
                (\<lambda>ref. attempt
                        (and_then (getitem v ''metadata'')
                          (\<lambda>m. getitem m ''display_phone_number''))
                        st
                        (\<lambda>user.
                            let st1 = print (PaymentStatusUpdate sid ref s user) st
                            in attempt (first_key (phone_number_to_id_map st1)) st1
                                (\<lambda>business_phone_number.
                                    attempt (getitem payment ''reference_id'') st1
                                     (\<lambda>ref. get_payment_status env business_phone_number ref st1))))
          else (Inr (), print (NotRecognized payload) st)) = (Inr (), print (NotRecognized payload) st)"
    by simp
qed

lemma handle_status_keeps:
  "requests (snd (handle_status env payload v status st)) = requests st
   \<and> filter is_status_update (stdout (snd (handle_status env payload v status st)))
       = filter is_status_update (stdout st)"
  using handle_status_cases [of env payload v status st]
  by (auto simp: print_def)

lemma attempt_keeps:
  assumes "\<And>x. r = Inr x \<Longrightarrow>
             requests (snd (k x)) = requests st
             \<and> filter is_status_update (stdout (snd (k x))) = filter is_status_update (stdout st)"
  shows "requests (snd (attempt r st k)) = requests st
         \<and> filter is_status_update (stdout (snd (attempt r st k))) = filter is_status_update (stdout st)"
  using assms by (cases r) simp_all

lemma if_keeps:
  assumes "requests (snd a) = requests st
           \<and> filter is_status_update (stdout (snd a)) = filter is_status_update (stdout st)"
    and "requests (snd b) = requests st
           \<and> filter is_status_update (stdout (snd b)) = filter is_status_update (stdout st)"
  shows "requests (snd (if c then a else b)) = requests st
         \<and> filter is_status_update (stdout (snd (if c then a else b)))
             = filter is_status_update (stdout st)"
  using assms by simp

lemma handle_webhook_call_keeps:
  "requests (snd (handle_webhook_call env headers payload st)) = requests st
   \<and> filter is_status_update (stdout (snd (handle_webhook_call env headers payload st)))
       = filter is_status_update (stdout st)"
  unfolding handle_webhook_call_def
  by (intro attempt_keeps if_keeps handle_status_keeps; simp add: print_def)

lemma getitem_Inr_truthy: "getitem j k = Inr x \<Longrightarrow> truthy j"
  by (cases j) (auto split: option.splits)

section \<open>Amount construction\<close>

text \<open>
  C9. For every integer value and offset: an offset other than 100 makes the
  constructor raise \<open>ValueError\<close>, a value that is not a multiple of 100 makes it
  raise \<open>ValueError\<close>, and an Amount that was constructed has offset 100 and a value
  divisible by 100 (the value and offset it was given).
\<close>

theorem Amount_init_validates:
  "(off \<noteq> 100 \<longrightarrow> (\<exists>m. Amount_init v off = Inl (ValueError m)))
   \<and> (\<not> 100 dvd v \<longrightarrow> (\<exists>m. Amount_init v off = Inl (ValueError m)))
   \<and> (\<forall>a. Amount_init v off = Inr a \<longrightarrow> offset a = 100 \<and> 100 dvd val a \<and> val a = v \<and> offset a = off)
   \<and> (off = 100 \<and> 100 dvd v \<longrightarrow> Amount_init v off = Inr \<lparr>val = v, offset = 100\<rparr>)"
  by (auto simp: Amount_init_def VALUE_OFFSET_def)

theorem Amount_init_validates_witness:
  "(\<exists>m. Amount_init 1200 10 = Inl (ValueError m))
   \<and> (\<exists>m. Amount_init 1234 100 = Inl (ValueError m))
   \<and> Amount_init 1200 100 = Inr \<lparr>val = 1200, offset = 100\<rparr>
   \<and> Amount_init (- 500) 100 = Inr \<lparr>val = - 500, offset = 100\<rparr>"
proof -
  have a: "\<exists>m. Amount_init 1200 10 = Inl (ValueError m)"
    using Amount_init_validates [where off = 10 and v = 1200] by simp
  have b: "\<exists>m. Amount_init 1234 100 = Inl (ValueError m)"
    using Amount_init_validates [where off = 100 and v = 1234] by simp
  have c: "Amount_init 1200 100 = Inr \<lparr>val = 1200, offset = 100\<rparr>"
    using Amount_init_validates [where off = 100 and v = 1200] by simp
  have d: "Amount_init (- 500) 100 = Inr \<lparr>val = - 500, offset = 100\<rparr>"
    using Amount_init_validates [where off = 100 and v = "- 500"] by simp
  show ?thesis using a b c d by blast
qed

section \<open>The total of an order\<close>

text \<open>
  C1. In every message that \<open>send_order_details_msg\<close> posts, the item list is not
  empty and the value of \<open>total_amount\<close> is the value of \<open>subtotal\<close> plus the
  value of the tax, plus that of the shipping, minus that of the discount, each counted
  when the amount is present; with all three absent \<open>total_amount\<close> is the subtotal.
  The total is not clamped: the example order with a discount of 5000 is posted with a
  total of -2900.
\<close>

theorem total_amount_is_subtotal_and_charges:
  "(\<forall>d \<in> set (posted st (snd (send_order_details_msg env a st))).
       items a \<noteq> []
     \<and> val (total_amount_of d)
         = val (order_subtotal (order_of d)) + val_opt (tax_amount a)
           + val_opt (shipping_amount a) - val_opt (discount_amount a)
     \<and> (tax_amount a = None \<and> shipping_amount a = None \<and> discount_amount a = None
          \<longrightarrow> total_amount_of d = order_subtotal (order_of d)))
   \<and> (\<exists>d. posted initial_state (snd (send_order_details_msg example_env discounted_args initial_state)) = [d]
          \<and> val (total_amount_of d) = - 2900)"
proof (intro conjI ballI)
  fix d
  assume "d \<in> set (posted st (snd (send_order_details_msg env a st)))"
  then obtain i where i: "build_interactive env a = Inr i" and d: "d = request_of a i"
    using posted_cases by blast
  from build_interactive_Inr [OF i] d
  show "items a \<noteq> []"
    and "val (total_amount_of d)
         = val (order_subtotal (order_of d)) + val_opt (tax_amount a)
           + val_opt (shipping_amount a) - val_opt (discount_amount a)"
    and "tax_amount a = None \<and> shipping_amount a = None \<and> discount_amount a = None
          \<longrightarrow> total_amount_of d = order_subtotal (order_of d)"
    by (auto simp: total_amount_of_def order_of_def request_of_def)
next
  show "\<exists>d. posted initial_state (snd (send_order_details_msg example_env discounted_args initial_state)) = [d]
          \<and> val (total_amount_of d) = - 2900"
    by (simp add: model_defs example_defs Let_def posted_def new_requests_def total_amount_of_def)
qed

theorem total_amount_is_subtotal_and_charges_witness:
  "(\<exists>d. d \<in> set (posted initial_state (snd (send_order_details_msg example_env example_args initial_state)))
       \<and> val (order_subtotal (order_of d)) = 2000 \<and> val (total_amount_of d) = 2100)
   \<and> (\<exists>d. d \<in> set (posted initial_state
                  (snd (send_order_details_msg example_env (example_args\<lparr>tax_amount := None\<rparr>) initial_state)))
       \<and> total_amount_of d = order_subtotal (order_of d))"
proof -
  have p: "\<exists>d. posted initial_state (snd (send_order_details_msg example_env example_args initial_state)) = [d]
       \<and> val (order_subtotal (order_of d)) = 2000"
    by (simp add: model_defs example_defs Let_def posted_def new_requests_def order_of_def)
  then obtain d where
    d: "d \<in> set (posted initial_state (snd (send_order_details_msg example_env example_args initial_state)))"
    and s: "val (order_subtotal (order_of d)) = 2000"
    by auto
  have "val (total_amount_of d) = val (order_subtotal (order_of d)) + val_opt (tax_amount example_args)
           + val_opt (shipping_amount example_args) - val_opt (discount_amount example_args)"
    using total_amount_is_subtotal_and_charges [of initial_state example_env example_args] d by blast
  with s have t: "val (total_amount_of d) = 2100"
    by (simp add: example_args_def)
  let ?a = "example_args\<lparr>tax_amount := None\<rparr>"
  have "\<exists>d. posted initial_state (snd (send_order_details_msg example_env ?a initial_state)) = [d]"
    by (simp add: model_defs example_defs Let_def posted_def new_requests_def)
  then obtain d' where
    d': "d' \<in> set (posted initial_state (snd (send_order_details_msg example_env ?a initial_state)))"
    by auto
  have n: "tax_amount ?a = None \<and> shipping_amount ?a = None \<and> discount_amount ?a = None"
    by (simp add: example_args_def)
  have "total_amount_of d' = order_subtotal (order_of d')"
    using total_amount_is_subtotal_and_charges [of initial_state example_env ?a] d' n by blast
  with d d' s t show ?thesis by blast
qed

section \<open>The subtotal of an order\<close>

text \<open>
  C2. In every message that \<open>send_order_details_msg\<close> posts, the item list is not
  empty, the value of \<open>subtotal\<close> is the sum over the items of the value of the
  effective amount times the quantity, and every effective amount has the offset of
  the order; the effective amount is the sale amount when the item has one and the
  amount otherwise. An item of quantity 0 adds nothing to the sum. An item whose
  effective amount has another offset than the first item's amount, whatever its
  quantity, makes the builder raise \<open>ValueError\<close> and nothing is posted. With amounts
  made by the constructor, a non-empty item list, an accepted header and a sender that
  is found, a message is posted.
\<close>

theorem subtotal_is_sum_of_effective_amounts:
  "(\<forall>d \<in> set (posted st (snd (send_order_details_msg env a st))).
       items a \<noteq> []
     \<and> val (order_subtotal (order_of d))
         = sum_list (map (\<lambda>item. val (effective_amount item) * quantity item) (items a))
     \<and> list_all (\<lambda>item. offset (effective_amount item) = offset (order_subtotal (order_of d)))
          (items a))
   \<and> (\<forall>item. effective_amount item
               = (case sale_amount item of Some s \<Rightarrow> s | None \<Rightarrow> amount item))
   \<and> (\<forall>item its its'. quantity item = 0 \<longrightarrow>
          sum_list (map (\<lambda>item. val (effective_amount item) * quantity item) (its @ item # its'))
          = sum_list (map (\<lambda>item. val (effective_amount item) * quantity item) (its @ its')))
   \<and> (\<forall>first rest item.
          items a = first # rest \<and> item \<in> set (items a)
          \<and> offset (effective_amount item) \<noteq> offset (amount first) \<longrightarrow>
            posted st (snd (send_order_details_msg env a st)) = []
          \<and> (\<exists>m. build_interactive env a = Inl (ValueError m))
          \<and> (\<forall>h. interactive_header_of (msg_header a) = Inr h \<longrightarrow>
                build_interactive env a
                = Inl (ValueError ''Item amount must have the same offset as others'')))
   \<and> (\<forall>first rest h pid.
          valid_args a \<and> items a = first # rest
          \<and> interactive_header_of (msg_header a) = Inr h
          \<and> fst (get_sender_phone_number_id env (sender_phone_number a) st) = Inr pid \<longrightarrow>
            (\<exists>d. posted st (snd (send_order_details_msg env a st)) = [d]))"
proof (intro conjI ballI allI impI)
  fix d
  assume "d \<in> set (posted st (snd (send_order_details_msg env a st)))"
  then obtain i where i: "build_interactive env a = Inr i" and d: "d = request_of a i"
    using posted_cases by blast
  from build_interactive_Inr [OF i] d
  show "items a \<noteq> []"
    and "val (order_subtotal (order_of d))
         = sum_list (map (\<lambda>item. val (effective_amount item) * quantity item) (items a))"
    and "list_all (\<lambda>item. offset (effective_amount item) = offset (order_subtotal (order_of d)))
          (items a)"
    by (auto simp: order_of_def request_of_def items_sum_def)
next
  fix item
  show "effective_amount item = (case sale_amount item of Some s \<Rightarrow> s | None \<Rightarrow> amount item)"
    by (simp add: effective_amount_def)
next
  fix item :: Item and its its' :: "Item list"
  assume "quantity item = 0"
  then show "sum_list (map (\<lambda>item. val (effective_amount item) * quantity item) (its @ item # its'))
          = sum_list (map (\<lambda>item. val (effective_amount item) * quantity item) (its @ its'))"
    by simp
next
  fix first rest item
  assume a: "items a = first # rest \<and> item \<in> set (items a)
          \<and> offset (effective_amount item) \<noteq> offset (amount first)"
  then have bad: "\<not> list_all (\<lambda>item. offset (effective_amount item) = offset (amount first)) (items a)"
    by (auto simp: list_all_iff)
  have err: "\<exists>m. build_interactive env a = Inl (ValueError m)"
  proof (cases "interactive_header_of (msg_header a)")
    case (Inl e)
    with interactive_header_of_error [OF Inl] show ?thesis
      by (auto simp: build_interactive_eq)
  next
    case (Inr h)
    with a bad show ?thesis
      by (simp add: build_interactive_eq)
  qed
  then show "\<exists>m. build_interactive env a = Inl (ValueError m)" .
  from err show "posted st (snd (send_order_details_msg env a st)) = []"
    using send_order_details_msg_posted [of env a st "fst (send_order_details_msg env a st)"
      "snd (send_order_details_msg env a st)"]
    by (auto split: sum.splits)
  fix h
  assume "interactive_header_of (msg_header a) = Inr h"
  with a bad show "build_interactive env a
                = Inl (ValueError ''Item amount must have the same offset as others'')"
    by (simp add: build_interactive_eq)
next
  fix first rest h pid
  assume a: "valid_args a \<and> items a = first # rest
          \<and> interactive_header_of (msg_header a) = Inr h
          \<and> fst (get_sender_phone_number_id env (sender_phone_number a) st) = Inr pid"
  then obtain i where "build_interactive env a = Inr i"
    using valid_args_build by blast
  with a show "\<exists>d. posted st (snd (send_order_details_msg env a st)) = [d]"
    using send_order_details_msg_posted [of env a st "fst (send_order_details_msg env a st)"
      "snd (send_order_details_msg env a st)"]
    by simp
qed

theorem subtotal_is_sum_of_effective_amounts_witness:
  "(\<exists>d. posted initial_state (snd (send_order_details_msg example_env example_args initial_state)) = [d]
        \<and> val (order_subtotal (order_of d)) = 2000)
   \<and> quantity odd_item = 0 \<and> odd_item \<in> set (items odd_args)
   \<and> sum_list (map (\<lambda>item. val (effective_amount item) * quantity item) [example_item, odd_item]) = 2000
   \<and> build_interactive example_env odd_args
       = Inl (ValueError ''Item amount must have the same offset as others'')
   \<and> posted initial_state (snd (send_order_details_msg example_env odd_args initial_state)) = []"
proof -
  note main = subtotal_is_sum_of_effective_amounts
  have v: "valid_args example_args \<and> items example_args = example_item # []
          \<and> interactive_header_of (msg_header example_args) = Inr None
          \<and> fst (get_sender_phone_number_id example_env (sender_phone_number example_args) initial_state)
              = Inr (JStr ''106540352242922'')"
    by (simp add: model_defs example_defs valid_args_def valid_item_def valid_amount_def)
  from main [of initial_state example_env example_args] v
  obtain d where p: "posted initial_state (snd (send_order_details_msg example_env example_args initial_state)) = [d]"
    by blast
  then have d: "d \<in> set (posted initial_state (snd (send_order_details_msg example_env example_args initial_state)))"
    by simp
  have "val (order_subtotal (order_of d))
         = sum_list (map (\<lambda>item. val (effective_amount item) * quantity item) (items example_args))"
    using main [of initial_state example_env example_args] d by blast
  then have s: "val (order_subtotal (order_of d)) = 2000"
    by (simp add: example_args_def example_item_def effective_amount_def)
  have q: "quantity odd_item = 0" and m: "odd_item \<in> set (items odd_args)"
    by (simp_all add: odd_item_def odd_args_def example_args_def)
  have "sum_list (map (\<lambda>item. val (effective_amount item) * quantity item) ([example_item] @ odd_item # []))
        = sum_list (map (\<lambda>item. val (effective_amount item) * quantity item) ([example_item] @ []))"
    using main [of initial_state example_env example_args] q by blast
  then have z: "sum_list (map (\<lambda>item. val (effective_amount item) * quantity item) [example_item, odd_item]) = 2000"
    by (simp add: example_item_def effective_amount_def)
  have o: "items odd_args = example_item # [odd_item] \<and> odd_item \<in> set (items odd_args)
          \<and> offset (effective_amount odd_item) \<noteq> offset (amount example_item)"
    by (simp add: odd_item_def odd_args_def example_args_def example_item_def effective_amount_def)
  have h: "interactive_header_of (msg_header odd_args) = Inr None"
    by (simp add: odd_args_def example_args_def interactive_header_of_def)
  from main [of initial_state example_env odd_args] o h
  have "build_interactive example_env odd_args
       = Inl (ValueError ''Item amount must have the same offset as others'')"
    and "posted initial_state (snd (send_order_details_msg example_env odd_args initial_state)) = []"
    by blast+
  with p s q m z show ?thesis by blast
qed

section \<open>An empty item list\<close>

text \<open>
  C5, as amended. A call of \<open>send_order_details_msg\<close> with an empty item list ends
  in an exception and posts no message. The sender is looked up first: when the phone
  directory is empty its fetch is the one request made before the exception, otherwise
  no request is made. When the sender is found and the header is accepted the
  exception is the \<open>IndexError\<close> of \<open>items[0]\<close>.
\<close>

theorem empty_items_fail_after_sender_lookup:
  assumes "items a = []"
  shows "(\<exists>e. fst (send_order_details_msg env a st) = Inl e)
       \<and> posted st (snd (send_order_details_msg env a st)) = []
       \<and> new_requests st (snd (send_order_details_msg env a st))
           = (if phone_number_to_id_map st = []
              then [Get (PhoneNumbersUrl (get_waba env)) (get_headers env)] else [])
       \<and> (\<forall>pid h. fst (get_sender_phone_number_id env (sender_phone_number a) st) = Inr pid
                  \<and> interactive_header_of (msg_header a) = Inr h
              \<longrightarrow> fst (send_order_details_msg env a st) = Inl IndexError)"
proof -
  obtain r1 st1 where g: "get_sender_phone_number_id env (sender_phone_number a) st = (r1, st1)"
    by (cases "get_sender_phone_number_id env (sender_phone_number a) st")
  have s: "snd (send_order_details_msg env a st) = st1"
    using g by (simp add: send_order_details_msg_empty [OF assms] split: sum.splits)
  have r: "requests st1 = requests st @
           (if phone_number_to_id_map st = []
            then [Get (PhoneNumbersUrl (get_waba env)) (get_headers env)] else [])"
    using get_sender_phone_number_id_requests [OF g] by simp
  have 1: "\<exists>e. fst (send_order_details_msg env a st) = Inl e"
    using g by (simp add: send_order_details_msg_empty [OF assms] split: sum.splits)
  have 2: "posted st (snd (send_order_details_msg env a st)) = []"
    unfolding s using r by (simp add: posted_def new_requests_def)
  have 3: "new_requests st (snd (send_order_details_msg env a st))
           = (if phone_number_to_id_map st = []
              then [Get (PhoneNumbersUrl (get_waba env)) (get_headers env)] else [])"
    unfolding s using r by (simp add: new_requests_def)
  have 4: "\<forall>pid h. fst (get_sender_phone_number_id env (sender_phone_number a) st) = Inr pid
                  \<and> interactive_header_of (msg_header a) = Inr h
              \<longrightarrow> fst (send_order_details_msg env a st) = Inl IndexError"
    using g by (simp add: send_order_details_msg_empty [OF assms] split: sum.splits)
  from 1 2 3 4 show ?thesis by blast
qed

theorem empty_items_fail_after_sender_lookup_witness:
  "items (example_args\<lparr>items := []\<rparr>) = []
   \<and> fst (send_order_details_msg example_env (example_args\<lparr>items := []\<rparr>) initial_state) = Inl IndexError
   \<and> posted initial_state
        (snd (send_order_details_msg example_env (example_args\<lparr>items := []\<rparr>) initial_state)) = []
   \<and> new_requests initial_state
        (snd (send_order_details_msg example_env (example_args\<lparr>items := []\<rparr>) initial_state))
       = [Get (PhoneNumbersUrl ''waba1'') (get_headers example_env)]"
proof -
  have e: "items (example_args\<lparr>items := []\<rparr>) = []" by simp
  have g: "fst (get_sender_phone_number_id example_env
                 (sender_phone_number (example_args\<lparr>items := []\<rparr>)) initial_state)
           = Inr (JStr ''106540352242922'')"
    by (simp add: model_defs example_defs)
  have h: "interactive_header_of (msg_header (example_args\<lparr>items := []\<rparr>)) = Inr None"
    by (simp add: example_args_def interactive_header_of_def)
  have m: "phone_number_to_id_map initial_state = []" and w: "get_waba example_env = ''waba1''"
    by (simp_all add: initial_state_def example_env_def)
  from empty_items_fail_after_sender_lookup [OF e, of example_env initial_state] g h m w
  show ?thesis by simp
qed

text \<open>
  C5 as stated fails: in a process that has not loaded the phone directory, the call
  with no items raises \<open>IndexError\<close>, not \<open>ValueError\<close>, and the directory was
  fetched before.
\<close>

theorem empty_items_raise_IndexError_after_fetch:
  "send_order_details_msg example_env (example_args\<lparr>items := []\<rparr>) initial_state
     = (Inl IndexError, loaded_state)
   \<and> requests initial_state = []
   \<and> requests loaded_state = [Get (PhoneNumbersUrl ''waba1'') (get_headers example_env)]"
  by (simp add: model_defs example_defs)

section \<open>The total of validated amounts\<close>

text \<open>
  C10. When every item, sale, tax, shipping and discount amount is one the constructor
  of \<open>Amount\<close> makes, then for a non-empty item list the loop ends without an
  exception, the accumulated total is a multiple of 100, and \<open>Amount(total, offset)\<close>
  at the end of the builder returns; the builder never raises one of the two
  exceptions of that constructor, and with a header it accepts it returns the dict.
\<close>

theorem total_amount_construction_never_raises:
  assumes "valid_args a"
  shows "(\<forall>first rest. items a = first # rest \<longrightarrow>
            (\<exists>subtotal item_list.
               items_loop (offset (amount first)) (items a) 0 [] = Inr (subtotal, item_list)
             \<and> 100 dvd sub_amount (add_amount (add_amount subtotal (tax_amount a))
                                     (shipping_amount a)) (discount_amount a)
             \<and> Amount_init (sub_amount (add_amount (add_amount subtotal (tax_amount a))
                                     (shipping_amount a)) (discount_amount a))
                   (offset (amount first))
                 = Inr \<lparr>val = sub_amount (add_amount (add_amount subtotal (tax_amount a))
                                     (shipping_amount a)) (discount_amount a),
                        offset = 100\<rparr>))
       \<and> build_interactive env a \<noteq> Inl (ValueError ''Offset must be 100'')
       \<and> build_interactive env a \<noteq> Inl (ValueError ''Value must be a multiple of 100'')
       \<and> (\<forall>first rest h. items a = first # rest \<and> interactive_header_of (msg_header a) = Inr h \<longrightarrow>
            (\<exists>i. build_interactive env a = Inr i
                 \<and> 100 dvd val (parameters_total_amount (action_parameters i))))"
proof (intro conjI allI impI)
  fix first rest
  assume its: "items a = first # rest"
  note t = valid_args_total [OF assms its]
  show "\<exists>subtotal item_list.
               items_loop (offset (amount first)) (items a) 0 [] = Inr (subtotal, item_list)
             \<and> 100 dvd sub_amount (add_amount (add_amount subtotal (tax_amount a))
                                     (shipping_amount a)) (discount_amount a)
             \<and> Amount_init (sub_amount (add_amount (add_amount subtotal (tax_amount a))
                                     (shipping_amount a)) (discount_amount a))
                   (offset (amount first))
                 = Inr \<lparr>val = sub_amount (add_amount (add_amount subtotal (tax_amount a))
                                     (shipping_amount a)) (discount_amount a),
                        offset = 100\<rparr>"
    using t by (simp add: items_loop_eq order_total_eq Amount_init_def VALUE_OFFSET_def)
next
  show "build_interactive env a \<noteq> Inl (ValueError ''Offset must be 100'')"
  proof (cases "items a")
    case Nil
    then show ?thesis
      by (simp add: build_interactive_eq interactive_header_of_def header_dict_of_def
               split: sum.splits option.splits)
  next
    case (Cons first rest)
    from valid_args_total [OF assms Cons] Cons show ?thesis
      by (simp add: build_interactive_eq interactive_header_of_def header_dict_of_def
               Amount_init_def VALUE_OFFSET_def split: sum.splits option.splits)
  qed
next
  show "build_interactive env a \<noteq> Inl (ValueError ''Value must be a multiple of 100'')"
  proof (cases "items a")
    case Nil
    then show ?thesis
      by (simp add: build_interactive_eq interactive_header_of_def header_dict_of_def
               split: sum.splits option.splits)
  next
    case (Cons first rest)
    from valid_args_total [OF assms Cons] Cons show ?thesis
      by (simp add: build_interactive_eq interactive_header_of_def header_dict_of_def
               Amount_init_def VALUE_OFFSET_def split: sum.splits option.splits)
  qed
next
  fix first rest h
  assume a: "items a = first # rest \<and> interactive_header_of (msg_header a) = Inr h"
  then obtain i where i: "build_interactive env a = Inr i"
    using valid_args_build [OF assms] by blast
  from build_interactive_Inr [OF i] valid_args_total(3) [OF assms] a
  have "100 dvd val (parameters_total_amount (action_parameters i))"
    by auto
  with i show "\<exists>i. build_interactive env a = Inr i
                 \<and> 100 dvd val (parameters_total_amount (action_parameters i))"
    by blast
qed

theorem total_amount_construction_never_raises_witness:
  "valid_args example_args
   \<and> (\<exists>subtotal item_list.
         items_loop 100 [example_item] 0 [] = Inr (subtotal, item_list)
       \<and> Amount_init (sub_amount (add_amount (add_amount subtotal (tax_amount example_args))
                         (shipping_amount example_args)) (discount_amount example_args)) 100
           = Inr \<lparr>val = sub_amount (add_amount (add_amount subtotal (tax_amount example_args))
                         (shipping_amount example_args)) (discount_amount example_args),
                  offset = 100\<rparr>)
   \<and> (\<exists>i. build_interactive example_env example_args = Inr i
          \<and> 100 dvd val (parameters_total_amount (action_parameters i)))"
proof -
  have v: "valid_args example_args"
    by (simp add: valid_args_def valid_item_def valid_amount_def Amount_init_def VALUE_OFFSET_def
          example_args_def example_item_def)
  have its: "items example_args = example_item # []"
    and h: "interactive_header_of (msg_header example_args) = Inr None"
    and o: "offset (amount example_item) = 100"
    by (simp_all add: example_args_def example_item_def interactive_header_of_def)
  note main = total_amount_construction_never_raises [OF v, of example_env]
  from main its h
  have b: "\<exists>i. build_interactive example_env example_args = Inr i
          \<and> 100 dvd val (parameters_total_amount (action_parameters i))"
    by blast
  from main its
  have "\<exists>subtotal item_list.
         items_loop (offset (amount example_item)) (items example_args) 0 [] = Inr (subtotal, item_list)
       \<and> Amount_init (sub_amount (add_amount (add_amount subtotal (tax_amount example_args))
                         (shipping_amount example_args)) (discount_amount example_args))
             (offset (amount example_item))
           = Inr \<lparr>val = sub_amount (add_amount (add_amount subtotal (tax_amount example_args))
                         (shipping_amount example_args)) (discount_amount example_args),
                  offset = 100\<rparr>"
    by blast
  then have l: "\<exists>subtotal item_list.
         items_loop 100 [example_item] 0 [] = Inr (subtotal, item_list)
       \<and> Amount_init (sub_amount (add_amount (add_amount subtotal (tax_amount example_args))
                         (shipping_amount example_args)) (discount_amount example_args)) 100
           = Inr \<lparr>val = sub_amount (add_amount (add_amount subtotal (tax_amount example_args))
                         (shipping_amount example_args)) (discount_amount example_args),
                  offset = 100\<rparr>"
    unfolding its o .
  from v l b show ?thesis by blast
qed

section \<open>The offsets of tax, shipping and discount\<close>




section \<open>The signature of a callback\<close>

text \<open>
  C3, as amended. For a secret and a body whose HMAC-SHA256 hex digest is \<open>dg\<close> and a
  header \<open>X-Hub-Signature-256\<close> that is present: \<open>verify_webhook\<close> returns true
  for the header \<open>sha256=\<close> followed by \<open>dg\<close>, and also for the header \<open>dg\<close>
  without the prefix; for every other ASCII header it returns false.
\<close>

theorem verify_webhook_compares_stripped_header:
  assumes "is_hexdigest (hexdigest env (get_app_secret env) payload)"
    and "headers ''X-Hub-Signature-256'' = Some h"
  shows "(h = ''sha256='' @ hexdigest env (get_app_secret env) payload
            \<longrightarrow> verify_webhook env headers payload = Inr True)
       \<and> (h = hexdigest env (get_app_secret env) payload
            \<longrightarrow> verify_webhook env headers payload = Inr True)
       \<and> (isascii h \<longrightarrow>
            verify_webhook env headers payload
            = Inr (h = ''sha256='' @ hexdigest env (get_app_secret env) payload
                   \<or> h = hexdigest env (get_app_secret env) payload))"
proof -
  let ?dg = "hexdigest env (get_app_secret env) payload"
  have v: "verify_webhook env headers payload
           = (if isascii h then Inr (h = ''sha256='' @ ?dg \<or> h = ?dg) else Inl TypeError)"
    using assms(2) is_hexdigest_isascii [OF assms(1)] removeprefix_eq_digest [OF assms(1), of h]
    by (simp add: verify_webhook_def compare_digest_def isascii_removeprefix Let_def)
  have a1: "isascii (''sha256='' @ ?dg)"
    using prefix_isascii is_hexdigest_isascii [OF assms(1)] by (simp only: isascii_append)
  have a2: "isascii ?dg"
    using is_hexdigest_isascii [OF assms(1)] .
  show ?thesis
    using v a1 a2 by auto
qed

theorem verify_webhook_compares_stripped_header_witness:
  "is_hexdigest (hexdigest example_env (get_app_secret example_env) fox)
   \<and> verify_webhook example_env [''X-Hub-Signature-256'' \<mapsto> ''sha256='' @ fox_digest] fox = Inr True
   \<and> verify_webhook example_env [''X-Hub-Signature-256'' \<mapsto> fox_digest] fox = Inr True
   \<and> verify_webhook example_env
        [''X-Hub-Signature-256'' \<mapsto> ''sha256=f7bc83f430538424b13298e6aa6fb143ef4d59a14946175997479dbc2d1a3cd9''] fox
       = Inr False"
proof -
  note main = verify_webhook_compares_stripped_header
  have dg: "hexdigest example_env (get_app_secret example_env) fox = fox_digest"
    by (simp add: example_env_def example_hexdigest_def)
  have hx: "is_hexdigest (hexdigest example_env (get_app_secret example_env) fox)"
    unfolding dg by (simp add: is_hexdigest_def fox_digest_def)
  have h: "[''X-Hub-Signature-256'' \<mapsto> x] ''X-Hub-Signature-256'' = Some x" for x :: string
    by simp
  have asc: "isascii ''sha256=f7bc83f430538424b13298e6aa6fb143ef4d59a14946175997479dbc2d1a3cd9''"
    by (simp add: isascii_def)
  have t: "verify_webhook example_env [''X-Hub-Signature-256'' \<mapsto> ''sha256='' @ fox_digest] fox = Inr True"
    using main [where env = example_env and payload = fox and h = "''sha256='' @ fox_digest"
        and headers = "[''X-Hub-Signature-256'' \<mapsto> ''sha256='' @ fox_digest]", OF hx h] dg by simp
  have b: "verify_webhook example_env [''X-Hub-Signature-256'' \<mapsto> fox_digest] fox = Inr True"
    using main [where env = example_env and payload = fox and h = fox_digest
        and headers = "[''X-Hub-Signature-256'' \<mapsto> fox_digest]", OF hx h] dg by simp
  have f: "verify_webhook example_env
        [''X-Hub-Signature-256'' \<mapsto> ''sha256=f7bc83f430538424b13298e6aa6fb143ef4d59a14946175997479dbc2d1a3cd9''] fox
       = Inr False"
    using main [where env = example_env and payload = fox
        and h = "''sha256=f7bc83f430538424b13298e6aa6fb143ef4d59a14946175997479dbc2d1a3cd9''"
        and headers = "[''X-Hub-Signature-256'' \<mapsto> ''sha256=f7bc83f430538424b13298e6aa6fb143ef4d59a14946175997479dbc2d1a3cd9'']", OF hx h]
      asc dg by (simp add: fox_digest_def)
  from hx t b f show ?thesis by blast
qed

text \<open>
  C3 as stated fails: the header that carries the digest without the prefix
  \<open>sha256=\<close> is accepted, since \<open>removeprefix\<close> leaves it as it is.
\<close>

theorem bare_digest_is_accepted:
  "verify_webhook example_env [''X-Hub-Signature-256'' \<mapsto> fox_digest] fox = Inr True"
  by (simp add: verify_webhook_def removeprefix_def compare_digest_def isascii_def
        example_env_def example_hexdigest_def fox_digest_def)

text \<open>
  C4. \<open>verify_webhook\<close> is not total: without an \<open>X-Hub-Signature-256\<close> entry
  the lookup raises \<open>KeyError\<close>, which \<open>handle_webhook_call\<close> passes on, and a
  header with a character outside ASCII makes \<open>compare_digest\<close> raise \<open>TypeError\<close>.
\<close>

theorem missing_signature_header_raises:
  "verify_webhook env Map.empty payload = Inl (KeyError ''X-Hub-Signature-256'')
   \<and> handle_webhook_call env Map.empty payload st = (Inl (KeyError ''X-Hub-Signature-256''), st)
   \<and> verify_webhook example_env [''X-Hub-Signature-256'' \<mapsto> [CHR 0xE9]] fox = Inl TypeError"
  by (simp add: verify_webhook_def handle_webhook_call_def removeprefix_def compare_digest_def
        isascii_def)

section \<open>The classification of a callback\<close>

text \<open>
  C6. The branch for a payment status update is never reached. For the verified
  callback whose first status entry has a recipient id, the type \<open>payment\<close>, the status
  \<open>success\<close>, a timestamp and a payment object with a reference id,
  \<open>handle_webhook_call\<close> raises \<open>AttributeError\<close>: \<open>status\<close> is by then the
  string \<open>success\<close>, on which \<open>get\<close> is called. The same callback without a
  \<open>messages\<close> entry raises \<open>KeyError\<close>. For every environment, headers, body and
  state, \<open>handle_webhook_call\<close> makes no request and prints no status update.
\<close>

theorem status_update_is_never_reached:
  "handle_webhook_call example_env
       [''X-Hub-Signature-256'' \<mapsto> ''sha256=18990409685bb22392677138291976add281caf59d8a3cf99bec43a0f5fe75b3'']
       status_callback loaded_state
     = (Inl AttributeError, loaded_state)
   \<and> handle_webhook_call example_env
       [''X-Hub-Signature-256'' \<mapsto> ''sha256=62a809cbc5577bcd25a6501b882fe486cf08fc0e076d7cb1aebcb864833a3a12'']
       status_only_callback loaded_state
     = (Inl (KeyError ''messages''), loaded_state)
   \<and> requests (snd (handle_webhook_call env headers payload st)) = requests st
   \<and> filter is_status_update (stdout (snd (handle_webhook_call env headers payload st)))
       = filter is_status_update (stdout st)"
proof (intro conjI)
  show "handle_webhook_call example_env
       [''X-Hub-Signature-256'' \<mapsto> ''sha256=18990409685bb22392677138291976add281caf59d8a3cf99bec43a0f5fe75b3'']
       status_callback loaded_state
     = (Inl AttributeError, loaded_state)"
    by (simp add: model_defs example_defs)
  show "handle_webhook_call example_env
       [''X-Hub-Signature-256'' \<mapsto> ''sha256=62a809cbc5577bcd25a6501b882fe486cf08fc0e076d7cb1aebcb864833a3a12'']
       status_only_callback loaded_state
     = (Inl (KeyError ''messages''), loaded_state)"
    by (simp add: model_defs example_defs)
  show "requests (snd (handle_webhook_call env headers payload st)) = requests st"
    and "filter is_status_update (stdout (snd (handle_webhook_call env headers payload st)))
       = filter is_status_update (stdout st)"
    using handle_webhook_call_keeps [of env headers payload st] by simp_all
qed

text \<open>
  C7, as amended. For a verified callback that passes the checks of the object, the
  account and the field, whose first message has an \<open>interactive\<close> object of type
  \<open>payment\<close> with a \<open>payment\<close> object holding \<open>transaction_id\<close>,
  \<open>reference_id\<close> and \<open>status\<close>, and whose value has
  \<open>metadata.display_phone_number\<close>: \<open>handle_webhook_call\<close> prints the payment
  confirmation with these four values and returns, with no request made, whatever the
  \<open>statuses\<close> of the body are.
\<close>

theorem payment_confirmation_is_terminal:
  assumes "verify_webhook env headers payload = Inr True"
    and "json_loads env payload = Inr data"
    and "getitem data ''object'' = Inr (JStr ''whatsapp_business_account'')"
    and "getitem data ''entry'' = Inr entries"
    and "getitem0 entries = Inr entry"
    and "getitem entry ''id'' = Inr (JStr (get_waba env))"
    and "getitem entry ''changes'' = Inr changes"
    and "getitem0 changes = Inr change"
    and "getitem change ''field'' = Inr (JStr ''messages'')"
    and "getitem change ''value'' = Inr v"
    and "getitem v ''messages'' = Inr messages"
    and "getitem0 messages = Inr message"
    and "get message ''interactive'' = Inr interactive"
    and "getitem interactive ''type'' = Inr (JStr ''payment'')"
    and "getitem interactive ''payment'' = Inr payment"
    and "getitem payment ''transaction_id'' = Inr transaction_id"
    and "getitem payment ''reference_id'' = Inr ref"
    and "getitem payment ''status'' = Inr status"
    and "getitem v ''metadata'' = Inr metadata"
    and "getitem metadata ''display_phone_number'' = Inr user"
  shows "handle_webhook_call env headers payload st
           = (Inr (), print (PaymentConfirmation transaction_id ref status user) st)
         \<and> requests (snd (handle_webhook_call env headers payload st)) = requests st
         \<and> stdout (snd (handle_webhook_call env headers payload st))
             = stdout st @ [PaymentConfirmation transaction_id ref status user]"
proof -
  have t: "truthy interactive"
    using assms(14) by (rule getitem_Inr_truthy)
  have "handle_webhook_call env headers payload st
           = (Inr (), print (PaymentConfirmation transaction_id ref status user) st)"
    unfolding handle_webhook_call_def using assms t by simp
  then show ?thesis by (simp add: print_def)
qed

theorem payment_confirmation_is_terminal_witness:
  "handle_webhook_call example_env
       [''X-Hub-Signature-256'' \<mapsto> ''sha256=79e41f71f76b9f3355d0d159c62da59dde6dec5aeeb4a3b860507b9236536bf0'']
       confirmation_callback loaded_state
     = (Inr (), print (PaymentConfirmation (JStr ''txn1'') (JStr ''ref1'') (JStr ''success'')
                         (JStr ''16315555555'')) loaded_state)
   \<and> requests (snd (handle_webhook_call example_env
       [''X-Hub-Signature-256'' \<mapsto> ''sha256=79e41f71f76b9f3355d0d159c62da59dde6dec5aeeb4a3b860507b9236536bf0'']
       confirmation_callback loaded_state)) = requests loaded_state"
proof -
  let ?headers = "[''X-Hub-Signature-256'' \<mapsto> ''sha256=79e41f71f76b9f3355d0d159c62da59dde6dec5aeeb4a3b860507b9236536bf0'']"
  let ?interactive = "JObj [(''type'', JStr ''payment''), (''payment'', example_payment)]"
  let ?message = "JObj [(''interactive'', ?interactive)]"
  let ?v = "JObj [(''metadata'', example_metadata), (''messages'', JArr [?message]),
                  (''statuses'', JArr [example_status])]"
  let ?change = "JObj [(''field'', JStr ''messages''), (''value'', ?v)]"
  let ?entry = "JObj [(''id'', JStr ''waba1''), (''changes'', JArr [?change])]"
  have 1: "verify_webhook example_env ?headers confirmation_callback = Inr True"
    by (simp add: model_defs example_defs)
  have 2: "json_loads example_env confirmation_callback = Inr confirmation_callback_json"
    by (simp add: example_env_def example_loads_def confirmation_callback_def
          phone_numbers_body_def status_callback_def status_only_callback_def)
  have 3: "getitem confirmation_callback_json ''object'' = Inr (JStr ''whatsapp_business_account'')"
    and 4: "getitem confirmation_callback_json ''entry'' = Inr (JArr [?entry])"
    by (simp_all add: confirmation_callback_json_def callback_with_def)
  have 5: "getitem0 (JArr [?entry]) = Inr ?entry" by simp
  have 6: "getitem ?entry ''id'' = Inr (JStr (get_waba example_env))"
    by (simp add: example_env_def)
  have 7: "getitem ?entry ''changes'' = Inr (JArr [?change])" by simp
  have 8: "getitem0 (JArr [?change]) = Inr ?change" by simp
  have 9: "getitem ?change ''field'' = Inr (JStr ''messages'')" by simp
  have 10: "getitem ?change ''value'' = Inr ?v" by simp
  have 11: "getitem ?v ''messages'' = Inr (JArr [?message])" by simp
  have 12: "getitem0 (JArr [?message]) = Inr ?message" by simp
  have 13: "get ?message ''interactive'' = Inr ?interactive" by simp
  have 14: "getitem ?interactive ''type'' = Inr (JStr ''payment'')" by simp
  have 15: "getitem ?interactive ''payment'' = Inr example_payment" by simp
  have 16: "getitem example_payment ''transaction_id'' = Inr (JStr ''txn1'')"
    and 17: "getitem example_payment ''reference_id'' = Inr (JStr ''ref1'')"
    and 18: "getitem example_payment ''status'' = Inr (JStr ''success'')"
    by (simp_all add: example_payment_def)
  have 19: "getitem ?v ''metadata'' = Inr example_metadata" by simp
  have 20: "getitem example_metadata ''display_phone_number'' = Inr (JStr ''16315555555'')"
    by (simp add: example_metadata_def)
  from payment_confirmation_is_terminal
         [OF 1 2 3 4 5 6 7 8 9 10 11 12 13 14 15 16 17 18 19 20, of loaded_state]
  show ?thesis by blast
qed

text \<open>
  C7 as stated fails: a verified callback whose first message has an \<open>interactive\<close>
  object of type \<open>payment\<close> without a \<open>payment\<close> entry is not classified, the
  lookup of \<open>payment\<close> raises \<open>KeyError\<close>.
\<close>

theorem interactive_without_payment_raises:
  "verify_webhook example_env
       [''X-Hub-Signature-256'' \<mapsto> ''sha256=8ad0932c25e4368d8b3dc082c05fb6ab61deac74701bc06aee15a5f3b8dee56a'']
       bare_interactive_callback = Inr True
   \<and> handle_webhook_call example_env
       [''X-Hub-Signature-256'' \<mapsto> ''sha256=8ad0932c25e4368d8b3dc082c05fb6ab61deac74701bc06aee15a5f3b8dee56a'']
       bare_interactive_callback loaded_state
     = (Inl (KeyError ''payment''), loaded_state)"
  by (simp add: model_defs example_defs)

end
